theory Spec2Isabelle
  imports Main
begin

section \<open>Package okta: data model\<close>

text \<open>
  A shallow embedding of \<^verbatim>\<open>okta/okta.go\<close>. Go strings and byte slices are byte
  sequences, modelled as \<open>string\<close> (a list of 8-bit characters). A Go \<^verbatim>\<open>error\<close>
  is a value: \<open>errors_New msg\<close> is what \<^verbatim>\<open>errors.New(msg)\<close> returns,
  \<open>library_error msg\<close> stands for an error produced inside a library (net/http, net/url,
  encoding/json, io), and \<open>CorruptInputError\<close> is the error of encoding/base64 (its byte
  offset is left out). A function returning \<^verbatim>\<open>(T, error)\<close> returns a pair whose second
  component is \<open>None\<close> for \<^verbatim>\<open>nil\<close>.
\<close>

datatype error = errors_New string | library_error string | CorruptInputError

type_synonym bytes = string

record UserData =
  Username :: string
  Password :: string

record TotpRequest =
  totp_StateToken :: string
  PassCode :: string

record PushRequest =
  push_StateToken :: string

record OktaLink =
  Href :: string

record AuthResponseFactorLinks =
  VerifyLink :: OktaLink

record PushRequestResponseLinks =
  PollLink :: OktaLink

record PushRequestResponse =
  Links :: PushRequestResponseLinks
  FactorResult :: string

record AuthResponseFactor =
  factor_Links :: AuthResponseFactorLinks
  FactorType :: string
  Provider :: string

record AuthResponseEmbedded =
  Factors :: "AuthResponseFactor list"

text \<open>The \<^verbatim>\<open>iota\<close> constants; \<^verbatim>\<open>YakStatusCode\<close> is a Go \<^verbatim>\<open>int\<close>.\<close>

definition YAK_STATUS_OK :: int where "YAK_STATUS_OK = 0"
definition YAK_STATUS_UNAUTHORISED :: int where "YAK_STATUS_UNAUTHORISED = 1"
definition YAK_STATUS_DATA_ERROR :: int where "YAK_STATUS_DATA_ERROR = 2"
definition YAK_STATUS_NET_ERROR :: int where "YAK_STATUS_NET_ERROR = 3"
definition YAK_STATUS_BAD_RESPONSE :: int where "YAK_STATUS_BAD_RESPONSE = 4"

record OktaAuthResponse =
  StateToken :: string
  SessionToken :: string
  ExpiresAt :: string
  Status :: string
  Embedded :: AuthResponseEmbedded
  YakStatusCode :: int

text \<open>The composite literal \<^verbatim>\<open>OktaAuthResponse{YakStatusCode: c}\<close>: every other field zero.\<close>

definition OktaAuthResponse_lit :: "int \<Rightarrow> OktaAuthResponse" where
  "OktaAuthResponse_lit c =
     \<lparr>StateToken = [], SessionToken = [], ExpiresAt = [], Status = [],
      Embedded = \<lparr>Factors = []\<rparr>, YakStatusCode = c\<rparr>"

text \<open>The composite literal \<^verbatim>\<open>PushRequestResponse{}\<close>.\<close>

definition PushRequestResponse_zero :: PushRequestResponse where
  "PushRequestResponse_zero = \<lparr>Links = \<lparr>PollLink = \<lparr>Href = []\<rparr>\<rparr>, FactorResult = []\<rparr>"

section \<open>encoding/json, as far as the package uses it\<close>

text \<open>
  A JSON document after parsing. A number keeps its literal text, since what it stores
  depends on the destination's type.
\<close>

datatype json = JNull | JBool bool | JNumber string | JString string
  | JArray "json list" | JObject "(string \<times> json) list"

text \<open>
  What \<^verbatim>\<open>json.Marshal\<close> encodes for the three request structs, following their
  field tags.
\<close>

definition UserData_json :: "UserData \<Rightarrow> json" where
  "UserData_json u =
     JObject [(''username'', JString (Username u)), (''password'', JString (Password u))]"

definition TotpRequest_json :: "TotpRequest \<Rightarrow> json" where
  "TotpRequest_json t =
     JObject [(''stateToken'', JString (totp_StateToken t)), (''passCode'', JString (PassCode t))]"

definition PushRequest_json :: "PushRequest \<Rightarrow> json" where
  "PushRequest_json p = JObject [(''stateToken'', JString (push_StateToken p))]"

text \<open>
  \<^verbatim>\<open>json.Unmarshal\<close> into a struct matches each key of the JSON object against the
  names of the struct's exported fields (the tag's name, or the Go field name for a field
  without a tag), taking an exact match first and a case-folded match otherwise, and stores
  the member's value in that field when the value fits the field's type; a key that matches
  nothing and a value of the wrong type are skipped. \<open>equalFold\<close> is the decoder's
  folding comparison of a field name \<open>s\<close> with a key \<open>t\<close>: ASCII letters match
  in either case, and the Kelvin sign (bytes E2 84 AA) and the long s (bytes C5 BF)
  match k and s.
\<close>

definition caseMask :: "char \<Rightarrow> nat" where
  "caseMask c = (let n = of_char c in n - (n div 32 mod 2) * 32)"

definition is_letter :: "char \<Rightarrow> bool" where
  "is_letter c = (let n = caseMask c in 65 \<le> n \<and> n \<le> 90)"

fun equalFold :: "string \<Rightarrow> string \<Rightarrow> bool" where
  "equalFold [] t = (t = [])"
| "equalFold (sb # s) [] = False"
| "equalFold (sb # s) (tb # t) =
     (if (of_char tb :: nat) < 128 then
        (if sb = tb \<or> (is_letter sb \<and> caseMask sb = caseMask tb) then equalFold s t
         else False)
      else if sb = CHR ''s'' \<or> sb = CHR ''S'' then
        (if take 2 (tb # t) = [CHR 0xC5, CHR 0xBF] then equalFold s (drop 1 t) else False)
      else if sb = CHR ''k'' \<or> sb = CHR ''K'' then
        (if take 3 (tb # t) = [CHR 0xE2, CHR 0x84, CHR 0xAA] then equalFold s (drop 2 t)
         else False)
      else False)"

definition find_field :: "string list \<Rightarrow> string \<Rightarrow> string option" where
  "find_field names key =
     (if key \<in> set names then Some key else find (\<lambda>n. equalFold n key) names)"

text \<open>
  Decoding a JSON value into a struct: only an object stores anything; its members are
  taken in order, so a later member overwrites an earlier one for the same field.
\<close>

definition decode_struct ::
  "string list \<Rightarrow> (string \<Rightarrow> json \<Rightarrow> 'a \<Rightarrow> 'a) \<Rightarrow> json \<Rightarrow> 'a \<Rightarrow> 'a" where
  "decode_struct names store v r =
     (case v of
        JObject kvs \<Rightarrow>
          foldl (\<lambda>r kv. case find_field names (fst kv) of
                           None \<Rightarrow> r
                         | Some n \<Rightarrow> store n (snd kv) r) r kvs
      | _ \<Rightarrow> r)"

text \<open>A JSON string stored in a Go string field; any other value leaves the field as it is.\<close>

fun store_string :: "json \<Rightarrow> string \<Rightarrow> string" where
  "store_string (JString s) old = s"
| "store_string _ old = old"

text \<open>
  A JSON number stored in a Go \<^verbatim>\<open>int\<close> field (64 bits on the amd64 builds of the
  repository): \<^verbatim>\<open>strconv.ParseInt(literal, 10, 64)\<close> must succeed, so the literal is an
  optional sign followed by decimal digits and its value fits 64 bits.
\<close>

definition digit_val :: "char \<Rightarrow> nat option" where
  "digit_val c = (let n = of_char c in if 48 \<le> n \<and> n \<le> 57 then Some (n - 48) else None)"

fun digits_val :: "string \<Rightarrow> nat \<Rightarrow> nat option" where
  "digits_val [] acc = Some acc"
| "digits_val (c # cs) acc =
     (case digit_val c of None \<Rightarrow> None | Some d \<Rightarrow> digits_val cs (10 * acc + d))"

definition ParseInt :: "string \<Rightarrow> int option" where
  "ParseInt s =
     (let neg = (take 1 s = ''-'');
          ds = (if take 1 s = ''-'' \<or> take 1 s = ''+'' then drop 1 s else s)
      in if ds = [] then None
         else case digits_val ds 0 of
                None \<Rightarrow> None
              | Some n \<Rightarrow>
                  let i = (if neg then - int n else int n)
                  in if - (2 ^ 63) \<le> i \<and> i < 2 ^ 63 then Some i else None)"

fun store_int :: "json \<Rightarrow> int \<Rightarrow> int" where
  "store_int (JNumber lit) old = (case ParseInt lit of Some i \<Rightarrow> i | None \<Rightarrow> old)"
| "store_int _ old = old"

section \<open>Library functions and the network\<close>

text \<open>\<^verbatim>\<open>url.URL\<close> of Go 1.14 (the version of \<^verbatim>\<open>go.mod\<close>).\<close>

record URL =
  Scheme :: string
  Opaque :: string
  User :: "(string \<times> string option) option"
  Host :: string
  Path :: string
  RawPath :: string
  ForceQuery :: bool
  RawQuery :: string
  Fragment :: string

text \<open>\<^verbatim>\<open>html.Token\<close> and \<^verbatim>\<open>html.Attribute\<close> of golang.org/x/net/html.\<close>

datatype TokenType = ErrorToken | TextToken | StartTagToken | EndTagToken
  | SelfClosingTagToken | CommentToken | DoctypeToken

record Attribute =
  Namespace :: string
  Key :: string
  Val :: string

record Token =
  Type :: TokenType
  Data :: string
  Attr :: "Attribute list"

text \<open>
  The library functions the package calls and whose code is not part of it are parameters
  of the model, collected in one record:
  \<^item> \<open>json_Marshal\<close>: the bytes \<^verbatim>\<open>json.Marshal\<close> writes for a JSON value, and its error;
  \<^item> \<open>json_parse\<close>: the JSON document a byte sequence encodes, \<open>None\<close> when the bytes are
    not one well-formed JSON value (\<^verbatim>\<open>json.Unmarshal\<close> then stores nothing);
  \<^item> \<open>decode_Embedded\<close>: how \<^verbatim>\<open>json.Unmarshal\<close> stores a value in the field
    \<^verbatim>\<open>Embedded\<close> (a struct holding a slice of structs);
  \<^item> \<open>url_Parse\<close>, \<open>ResolveReference\<close>, \<open>URL_String\<close>: \<^verbatim>\<open>url.Parse\<close>,
    \<^verbatim>\<open>(*URL).ResolveReference\<close> and \<^verbatim>\<open>(*URL).String\<close>;
  \<^item> \<open>cookiejar_New\<close>: the error of \<^verbatim>\<open>cookiejar.New(nil)\<close>;
  \<^item> \<open>html_Tokens\<close>: the tokens that successive calls of \<^verbatim>\<open>Next\<close> and \<^verbatim>\<open>Token\<close>
    return for a document, up to the \<^verbatim>\<open>ErrorToken\<close> that ends it (every call after the
    last token of the list returns an \<^verbatim>\<open>ErrorToken\<close>).
\<close>

record golib =
  json_Marshal :: "json \<Rightarrow> bytes \<times> error option"
  json_parse :: "bytes \<Rightarrow> json option"
  decode_Embedded :: "json \<Rightarrow> AuthResponseEmbedded \<Rightarrow> AuthResponseEmbedded"
  url_Parse :: "string \<Rightarrow> error + URL"
  ResolveReference :: "URL \<Rightarrow> URL \<Rightarrow> URL"
  URL_String :: "URL \<Rightarrow> string"
  cookiejar_New :: "error option"
  html_Tokens :: "bytes \<Rightarrow> Token list"

text \<open>
  The outcome of one HTTP request: an error of the client, or a response with its status
  code, its status line and what \<^verbatim>\<open>ioutil.ReadAll\<close> gives for its body (the bytes read,
  and the error that stopped the reading if there was one).
\<close>

datatype body_read = ReadAll_ok bytes | ReadAll_failed bytes error

record Response =
  resp_StatusCode :: int
  resp_Status :: string
  resp_Body :: body_read

datatype http_result = http_error error | http_response Response

text \<open>
  The network: \<open>http_Post W n url body\<close> is the outcome of the POST of \<open>body\<close> to
  \<open>url\<close> when \<open>n\<close> POSTs were made before it; \<open>client_Get W url\<close> is the outcome of
  the GET of \<open>url\<close>. What the program does to the outside is recorded in a trace of
  events, oldest first.
\<close>

record world =
  http_Post :: "nat \<Rightarrow> string \<Rightarrow> bytes \<Rightarrow> http_result"
  client_Get :: "string \<Rightarrow> http_result"

datatype event = Post string bytes | Get string | Stderr string | Sleep nat

fun is_Post :: "event \<Rightarrow> bool" where
  "is_Post (Post url body) = True"
| "is_Post _ = False"

definition n_posts :: "event list \<Rightarrow> nat" where
  "n_posts tr = length (filter is_Post tr)"

section \<open>Decoding the responses\<close>

definition OktaAuthResponse_fields :: "string list" where
  "OktaAuthResponse_fields =
     [''stateToken'', ''sessionToken'', ''expiresAt'', ''status'', ''_embedded'',
      ''YakStatusCode'']"

text \<open>
  \<^verbatim>\<open>YakStatusCode\<close> is an exported field without a tag, so it is a field of the JSON
  decoding too, under its Go name.
\<close>

definition store_OktaAuthResponse ::
  "golib \<Rightarrow> string \<Rightarrow> json \<Rightarrow> OktaAuthResponse \<Rightarrow> OktaAuthResponse" where
  "store_OktaAuthResponse L name v r =
     (if name = ''stateToken'' then r\<lparr>StateToken := store_string v (StateToken r)\<rparr>
      else if name = ''sessionToken'' then r\<lparr>SessionToken := store_string v (SessionToken r)\<rparr>
      else if name = ''expiresAt'' then r\<lparr>ExpiresAt := store_string v (ExpiresAt r)\<rparr>
      else if name = ''status'' then r\<lparr>Status := store_string v (Status r)\<rparr>
      else if name = ''_embedded'' then r\<lparr>Embedded := decode_Embedded L v (Embedded r)\<rparr>
      else if name = ''YakStatusCode'' then r\<lparr>YakStatusCode := store_int v (YakStatusCode r)\<rparr>
      else r)"

text \<open>
  \<^verbatim>\<open>json.Unmarshal(body, &authResponse)\<close>; the package drops the error it returns, so
  the model returns the struct alone.
\<close>

definition Unmarshal_OktaAuthResponse ::
  "golib \<Rightarrow> bytes \<Rightarrow> OktaAuthResponse \<Rightarrow> OktaAuthResponse" where
  "Unmarshal_OktaAuthResponse L body r =
     (case json_parse L body of
        None \<Rightarrow> r
      | Some v \<Rightarrow> decode_struct OktaAuthResponse_fields (store_OktaAuthResponse L) v r)"

definition store_OktaLink :: "string \<Rightarrow> json \<Rightarrow> OktaLink \<Rightarrow> OktaLink" where
  "store_OktaLink name v r =
     (if name = ''href'' then r\<lparr>Href := store_string v (Href r)\<rparr> else r)"

definition store_PushRequestResponseLinks ::
  "string \<Rightarrow> json \<Rightarrow> PushRequestResponseLinks \<Rightarrow> PushRequestResponseLinks" where
  "store_PushRequestResponseLinks name v r =
     (if name = ''next''
      then r\<lparr>PollLink := decode_struct [''href''] store_OktaLink v (PollLink r)\<rparr>
      else r)"

definition store_PushRequestResponse ::
  "string \<Rightarrow> json \<Rightarrow> PushRequestResponse \<Rightarrow> PushRequestResponse" where
  "store_PushRequestResponse name v r =
     (if name = ''_links''
      then r\<lparr>Links := decode_struct [''next''] store_PushRequestResponseLinks v (Links r)\<rparr>
      else if name = ''factorResult''
      then r\<lparr>FactorResult := store_string v (FactorResult r)\<rparr>
      else r)"

definition Unmarshal_PushRequestResponse ::
  "golib \<Rightarrow> bytes \<Rightarrow> PushRequestResponse \<Rightarrow> PushRequestResponse" where
  "Unmarshal_PushRequestResponse L body r =
     (case json_parse L body of
        None \<Rightarrow> r
      | Some v \<Rightarrow> decode_struct [''_links'', ''factorResult''] store_PushRequestResponse v r)"

section \<open>The transport helper\<close>

text \<open>
  \<^verbatim>\<open>makeRequest\<close> (lines 235 to 255). It returns the body, the status code and the
  error, and the trace extended by the POST.
\<close>

definition makeRequest ::
  "world \<Rightarrow> string \<Rightarrow> bytes \<Rightarrow> event list \<Rightarrow> (bytes \<times> int \<times> error option) \<times> event list" where
  "makeRequest W url body tr =
     (case http_Post W (n_posts tr) url body of
        http_error err \<Rightarrow> (([], YAK_STATUS_NET_ERROR, Some err), tr @ [Post url body])
      | http_response resp \<Rightarrow>
          if resp_StatusCode resp = 401 \<or> resp_StatusCode resp = 403 then
            (([], YAK_STATUS_UNAUTHORISED,
              Some (errors_New (''Unauthorised ('' @ resp_Status resp @ '')''))),
             tr @ [Post url body])
          else if resp_StatusCode resp \<ge> 300 then
            (([], YAK_STATUS_NET_ERROR,
              Some (errors_New (''Network error ('' @ resp_Status resp @ '')''))),
             tr @ [Post url body])
          else
            (case resp_Body resp of
               ReadAll_failed responseBody err \<Rightarrow>
                 ((responseBody, YAK_STATUS_BAD_RESPONSE, Some err), tr @ [Post url body])
             | ReadAll_ok responseBody \<Rightarrow>
                 ((responseBody, YAK_STATUS_OK, None), tr @ [Post url body])))"

section \<open>Primary authentication and code verification\<close>

text \<open>\<^verbatim>\<open>url.Parse("/api/v1/authn")\<close>: a URL with that path and nothing else.\<close>

definition primaryAuthEndpoint :: URL where
  "primaryAuthEndpoint =
     \<lparr>Scheme = [], Opaque = [], User = None, Host = [], Path = ''/api/v1/authn'',
      RawPath = [], ForceQuery = False, RawQuery = [], Fragment = []\<rparr>"

definition Authenticate ::
  "golib \<Rightarrow> world \<Rightarrow> string \<Rightarrow> UserData \<Rightarrow> event list
     \<Rightarrow> (OktaAuthResponse \<times> error option) \<times> event list" where
  "Authenticate L W oktaHref userData tr =
     (case json_Marshal L (UserData_json userData) of
        (authBody, Some err) \<Rightarrow> ((OktaAuthResponse_lit YAK_STATUS_DATA_ERROR, Some err), tr)
      | (authBody, None) \<Rightarrow>
          (case url_Parse L oktaHref of
             Inl err \<Rightarrow> ((OktaAuthResponse_lit YAK_STATUS_DATA_ERROR, Some err), tr)
           | Inr oktaUrl \<Rightarrow>
               (case makeRequest W
                       (URL_String L (ResolveReference L oktaUrl primaryAuthEndpoint))
                       authBody tr of
                  ((body, yakStatus, Some err), tr') \<Rightarrow>
                    ((OktaAuthResponse_lit yakStatus, Some err), tr')
                | ((body, yakStatus, None), tr') \<Rightarrow>
                    ((Unmarshal_OktaAuthResponse L body (OktaAuthResponse_lit YAK_STATUS_OK),
                      None), tr'))))"

definition VerifyTotp ::
  "golib \<Rightarrow> world \<Rightarrow> string \<Rightarrow> TotpRequest \<Rightarrow> event list
     \<Rightarrow> (OktaAuthResponse \<times> error option) \<times> event list" where
  "VerifyTotp L W url totpRequestBody tr =
     (case json_Marshal L (TotpRequest_json totpRequestBody) of
        (totpJson, Some err) \<Rightarrow> ((OktaAuthResponse_lit YAK_STATUS_DATA_ERROR, Some err), tr)
      | (totpJson, None) \<Rightarrow>
          (case makeRequest W url totpJson tr of
             ((body, yakStatus, Some err), tr') \<Rightarrow>
               ((OktaAuthResponse_lit yakStatus, Some err), tr')
           | ((body, yakStatus, None), tr') \<Rightarrow>
               ((Unmarshal_OktaAuthResponse L body (OktaAuthResponse_lit YAK_STATUS_OK),
                 None), tr')))"

section \<open>Push verification\<close>

text \<open>
  The polling loop of \<^verbatim>\<open>VerifyPush\<close> (lines 143 to 173), with the loop's variable
  \<^verbatim>\<open>errorsRemaining\<close> and the trace as arguments. The loop has no bound of its own, so
  the function is partial: \<open>None\<close> is a loop that never returns. \<^verbatim>\<open>errorsRemaining\<close>
  is a Go \<^verbatim>\<open>int\<close>; it starts at 6 and the loop returns when it reaches 0, so it never
  wraps around.
\<close>

partial_function (option) pollLoop ::
  "golib \<Rightarrow> world \<Rightarrow> string \<Rightarrow> bytes \<Rightarrow> int \<Rightarrow> event list
     \<Rightarrow> ((OktaAuthResponse \<times> error option) \<times> event list) option" where
  "pollLoop L W href pushJson errorsRemaining tr =
     (case makeRequest W href pushJson tr of
        ((body, yakStatus, Some err), tr') \<Rightarrow>
          if errorsRemaining - 1 = 0 then
            Some ((OktaAuthResponse_lit yakStatus, Some err),
                  tr' @ [Stderr ''\<newline>Too many network errors, aborting...''])
          else pollLoop L W href pushJson (errorsRemaining - 1) tr'
      | ((body, yakStatus, None), tr') \<Rightarrow>
          (let authResponse = Unmarshal_OktaAuthResponse L body (OktaAuthResponse_lit yakStatus)
           in if Status authResponse \<noteq> ''MFA_CHALLENGE'' then
                if Status authResponse = ''SUCCESS'' then
                  Some ((authResponse, None), tr' @ [Stderr ''\<newline>''])
                else
                  Some ((authResponse\<lparr>YakStatusCode := YAK_STATUS_BAD_RESPONSE\<rparr>,
                         Some (errors_New (''Bad status from Okta API: '' @ Status authResponse))),
                        tr' @ [Stderr ''\<newline>''])
              else pollLoop L W href pushJson errorsRemaining
                     (tr' @ [Stderr ''.'', Sleep 5])))"

text \<open>
  \<^verbatim>\<open>VerifyPush\<close> (lines 125 to 174): the request that starts the push, then the loop
  on the poll link of its response. \<open>Sleep 5\<close> is \<^verbatim>\<open>time.Sleep(5 * time.Second)\<close>.
\<close>

definition VerifyPush ::
  "golib \<Rightarrow> world \<Rightarrow> string \<Rightarrow> PushRequest \<Rightarrow> event list
     \<Rightarrow> ((OktaAuthResponse \<times> error option) \<times> event list) option" where
  "VerifyPush L W url pushRequestBody tr =
     (case json_Marshal L (PushRequest_json pushRequestBody) of
        (pushJson, Some err) \<Rightarrow>
          Some ((OktaAuthResponse_lit YAK_STATUS_DATA_ERROR, Some err), tr)
      | (pushJson, None) \<Rightarrow>
          (case makeRequest W url pushJson tr of
             ((body, yakStatus, Some err), tr') \<Rightarrow>
               Some ((OktaAuthResponse_lit yakStatus, Some err), tr')
           | ((body, yakStatus, None), tr') \<Rightarrow>
               pollLoop L W
                 (Href (PollLink (Links
                    (Unmarshal_PushRequestResponse L body PushRequestResponse_zero))))
                 pushJson 6 (tr' @ [Stderr ''Waiting for MFA response''])))"

section \<open>The assertion exchange\<close>

text \<open>
  \<^verbatim>\<open>url.QueryEscape\<close>: letters, digits and the four marks \<^verbatim>\<open>- _ . ~\<close> stay, a
  space becomes \<^verbatim>\<open>+\<close>, every other byte becomes \<^verbatim>\<open>%\<close> and its two upper-case
  hexadecimal digits.
\<close>

definition shouldEscape :: "char \<Rightarrow> bool" where
  "shouldEscape c =
     (let n = (of_char c :: nat)
      in \<not> ((97 \<le> n \<and> n \<le> 122) \<or> (65 \<le> n \<and> n \<le> 90) \<or> (48 \<le> n \<and> n \<le> 57)
            \<or> c = CHR ''-'' \<or> c = CHR ''_'' \<or> c = CHR ''.'' \<or> c = CHR ''~''))"

definition upperhex :: "nat \<Rightarrow> char" where
  "upperhex d = (if d < 10 then char_of (48 + d) else char_of (55 + d))"

fun QueryEscape :: "string \<Rightarrow> string" where
  "QueryEscape [] = []"
| "QueryEscape (c # s) =
     (if c = CHR '' '' then CHR ''+'' # QueryEscape s
      else if shouldEscape c then
        CHR ''%'' # upperhex (of_char c div 16) # upperhex (of_char c mod 16) # QueryEscape s
      else c # QueryEscape s)"

text \<open>
  \<^verbatim>\<open>url.Values.Encode\<close> for the entries of the map taken in the order of their keys:
  every value as \<^verbatim>\<open>key=value\<close>, both escaped, joined by \<^verbatim>\<open>&\<close>.
\<close>

fun join_amp :: "string list \<Rightarrow> string" where
  "join_amp [] = []"
| "join_amp [x] = x"
| "join_amp (x # y # ys) = x @ ''&'' @ join_amp (y # ys)"

definition Values_Encode :: "(string \<times> string list) list \<Rightarrow> string" where
  "Values_Encode v =
     join_amp (concat (map (\<lambda>kvs. map (\<lambda>x. QueryEscape (fst kvs) @ ''='' @ QueryEscape x)
                                        (snd kvs)) v))"

text \<open>
  \<^verbatim>\<open>url.QueryUnescape\<close> and \<^verbatim>\<open>url.ParseQuery\<close> of Go 1.14, which give a query string
  its meaning: the parameters are separated by \<^verbatim>\<open>&\<close> or \<^verbatim>\<open>;\<close>, an empty one is skipped,
  the key ends at the first \<^verbatim>\<open>=\<close>, and key and value are unescaped. \<open>ParseQuery\<close>
  returns the parameters in their order and whether one of them was dropped for a bad
  escape.
\<close>

definition ishex :: "char \<Rightarrow> bool" where
  "ishex c =
     (let n = (of_char c :: nat)
      in (48 \<le> n \<and> n \<le> 57) \<or> (97 \<le> n \<and> n \<le> 102) \<or> (65 \<le> n \<and> n \<le> 70))"

definition unhex :: "char \<Rightarrow> nat" where
  "unhex c =
     (let n = (of_char c :: nat)
      in if 48 \<le> n \<and> n \<le> 57 then n - 48
         else if 97 \<le> n \<and> n \<le> 102 then n - 97 + 10
         else if 65 \<le> n \<and> n \<le> 70 then n - 65 + 10
         else 0)"

fun QueryUnescape :: "string \<Rightarrow> string option" where
  "QueryUnescape [] = Some []"
| "QueryUnescape (c # s) =
     (if c = CHR ''%'' then
        (case s of
           h # l # s' \<Rightarrow>
             if ishex h \<and> ishex l
             then map_option ((#) (char_of (unhex h * 16 + unhex l))) (QueryUnescape s')
             else None
         | _ \<Rightarrow> None)
      else map_option ((#) (if c = CHR ''+'' then CHR '' '' else c)) (QueryUnescape s))"

fun split_query :: "string \<Rightarrow> string \<Rightarrow> string list" where
  "split_query acc [] = [acc]"
| "split_query acc (c # s) =
     (if c = CHR ''&'' \<or> c = CHR '';'' then acc # split_query [] s
      else split_query (acc @ [c]) s)"

definition parse_pair :: "string \<Rightarrow> (string \<times> string) option" where
  "parse_pair p =
     (case QueryUnescape (takeWhile (\<lambda>c. c \<noteq> CHR ''='') p) of
        None \<Rightarrow> None
      | Some key \<Rightarrow>
          (case QueryUnescape (drop 1 (dropWhile (\<lambda>c. c \<noteq> CHR ''='') p)) of
             None \<Rightarrow> None
           | Some v \<Rightarrow> Some (key, v)))"

definition ParseQuery :: "string \<Rightarrow> (string \<times> string) list \<times> bool" where
  "ParseQuery query =
     (let ps = filter (\<lambda>p. p \<noteq> []) (split_query [] query)
      in (List.map_filter parse_pair ps, \<exists>p \<in> set ps. parse_pair p = None))"

text \<open>
  \<^verbatim>\<open>base64.StdEncoding.DecodeString\<close>: carriage returns and line feeds are skipped, the
  rest is read four characters at a time, each group giving three bytes; the last group may
  end in one or two \<^verbatim>\<open>=\<close> and then gives two bytes or one. Anything else is a
  \<^verbatim>\<open>CorruptInputError\<close>.
\<close>

definition b64_index :: "char \<Rightarrow> nat option" where
  "b64_index c =
     (let n = (of_char c :: nat)
      in if 65 \<le> n \<and> n \<le> 90 then Some (n - 65)
         else if 97 \<le> n \<and> n \<le> 122 then Some (n - 71)
         else if 48 \<le> n \<and> n \<le> 57 then Some (n + 4)
         else if c = CHR ''+'' then Some 62
         else if c = CHR ''/'' then Some 63
         else None)"

fun decodeQuanta :: "string \<Rightarrow> error + bytes" where
  "decodeQuanta [] = Inr []"
| "decodeQuanta (a # b # c # d # rest) =
     (case (b64_index a, b64_index b) of
        (Some x, Some y) \<Rightarrow>
          (case b64_index c of
             Some z \<Rightarrow>
               (case b64_index d of
                  Some w \<Rightarrow>
                    (case decodeQuanta rest of
                       Inl err \<Rightarrow> Inl err
                     | Inr bs \<Rightarrow>
                         Inr (char_of (x * 4 + y div 16) # char_of (y mod 16 * 16 + z div 4)
                              # char_of (z mod 4 * 64 + w) # bs))
                | None \<Rightarrow>
                    if d = CHR ''='' \<and> rest = []
                    then Inr [char_of (x * 4 + y div 16), char_of (y mod 16 * 16 + z div 4)]
                    else Inl CorruptInputError)
           | None \<Rightarrow>
               if c = CHR ''='' \<and> d = CHR ''='' \<and> rest = []
               then Inr [char_of (x * 4 + y div 16)]
               else Inl CorruptInputError)
      | _ \<Rightarrow> Inl CorruptInputError)"
| "decodeQuanta _ = Inl CorruptInputError"

definition DecodeString :: "string \<Rightarrow> error + bytes" where
  "DecodeString s = decodeQuanta (filter (\<lambda>c. c \<noteq> CHR 0x0A \<and> c \<noteq> CHR 0x0D) s)"

text \<open>
  \<^verbatim>\<open>extractSamlPayload\<close> (lines 257 to 292). \<open>attrLoop\<close> is the loop over the
  attributes of one token, on the pair of \<^verbatim>\<open>inputName\<close> and \<^verbatim>\<open>inputValue\<close>;
  \<open>tokenLoop\<close> is the loop over the tokens, on the tokens the tokeniser has still to
  return, and returns with its result the tokens it has not read.
\<close>

fun attrLoop :: "Attribute list \<Rightarrow> string \<times> string \<Rightarrow> string \<times> string" where
  "attrLoop [] nv = nv"
| "attrLoop (attribute # attrs) (inputName, inputValue) =
     attrLoop attrs
       (if Key attribute = ''name'' then Val attribute else inputName,
        if Key attribute = ''value'' then Val attribute else inputValue)"

fun tokenLoop :: "Token list \<Rightarrow> (string \<times> error option) \<times> Token list" where
  "tokenLoop [] =
     (([], Some (errors_New ''No SAML payload found in response from Okta'')), [])"
| "tokenLoop (token # rest) =
     (if Type token = ErrorToken then
        (([], Some (errors_New ''No SAML payload found in response from Okta'')), rest)
      else if (Type token = SelfClosingTagToken \<or> Type token = StartTagToken)
              \<and> Data token = ''input'' then
        (case attrLoop (Attr token) ([], []) of
           (inputName, inputValue) \<Rightarrow>
             if inputName = ''SAMLResponse'' then ((inputValue, None), rest)
             else tokenLoop rest)
      else tokenLoop rest)"

definition extractSamlPayload :: "golib \<Rightarrow> bytes \<Rightarrow> string \<times> error option" where
  "extractSamlPayload L htmlDocument = fst (tokenLoop (html_Tokens L htmlDocument))"

text \<open>\<^verbatim>\<open>AwsSamlLogin\<close> (lines 176 to 233).\<close>

definition AwsSamlLogin ::
  "golib \<Rightarrow> world \<Rightarrow> string \<Rightarrow> string \<Rightarrow> OktaAuthResponse \<Rightarrow> event list
     \<Rightarrow> (string \<times> error option) \<times> event list" where
  "AwsSamlLogin L W oktaHref samlHref oktaAuthResponse tr =
     (case url_Parse L oktaHref of
        Inl err \<Rightarrow> (([], Some err), tr)
      | Inr oktaUrl \<Rightarrow>
          (case url_Parse L samlHref of
             Inl err \<Rightarrow> (([], Some err), tr)
           | Inr samlEndpoint \<Rightarrow>
               (let samlUrl = (ResolveReference L oktaUrl samlEndpoint)
                      \<lparr>RawQuery :=
                         Values_Encode [(''onetimetoken'', [SessionToken oktaAuthResponse])]\<rparr>
                in case cookiejar_New L of
                     Some err \<Rightarrow> (([], Some err), tr)
                   | None \<Rightarrow>
                       (case client_Get W (URL_String L samlUrl) of
                          http_error err \<Rightarrow> (([], Some err), tr @ [Get (URL_String L samlUrl)])
                        | http_response resp \<Rightarrow>
                            if resp_StatusCode resp \<ge> 300 then
                              (([], Some (errors_New
                                   (''Could not get SAML payload'' @ resp_Status resp @ '')''))),
                               tr @ [Get (URL_String L samlUrl)])
                            else
                              (case resp_Body resp of
                                 ReadAll_failed body err \<Rightarrow>
                                   (([], Some err), tr @ [Get (URL_String L samlUrl)])
                               | ReadAll_ok body \<Rightarrow>
                                   (case extractSamlPayload L body of
                                      (data, Some err) \<Rightarrow>
                                        (([], Some err), tr @ [Get (URL_String L samlUrl)])
                                    | (data, None) \<Rightarrow>
                                        (case DecodeString data of
                                           Inl err \<Rightarrow>
                                             (([], Some err),
                                              tr @ [Get (URL_String L samlUrl)])
                                         | Inr saml \<Rightarrow>
                                             ((saml, None),
                                              tr @ [Get (URL_String L samlUrl)]))))))))"

section \<open>Vocabulary of the statements\<close>

text \<open>
  What an HTTP outcome is for \<^verbatim>\<open>makeRequest\<close>: \<open>failed\<close> when the helper returns an
  error for it (an error of the client, a status of 300 or more, a body that cannot be read
  to its end), \<open>delivered\<close> with the body \<open>b\<close> when the helper returns \<open>b\<close> and no
  error, \<open>unauthorised\<close> when it is a response with status 401 or 403.
\<close>

definition failed :: "http_result \<Rightarrow> bool" where
  "failed r =
     (case r of
        http_error err \<Rightarrow> True
      | http_response resp \<Rightarrow>
          resp_StatusCode resp \<ge> 300
          \<or> (case resp_Body resp of ReadAll_failed b err \<Rightarrow> True | ReadAll_ok b \<Rightarrow> False))"

definition delivered :: "http_result \<Rightarrow> bytes \<Rightarrow> bool" where
  "delivered r b =
     (case r of
        http_error err \<Rightarrow> False
      | http_response resp \<Rightarrow> resp_StatusCode resp < 300 \<and> resp_Body resp = ReadAll_ok b)"


text \<open>
  The status a poll response carries: the field \<^verbatim>\<open>Status\<close> after its body is decoded
  as the loop decodes it. A poll is \<open>pending\<close> when it delivers a body with the status
  \<^verbatim>\<open>MFA_CHALLENGE\<close>.
\<close>

definition decoded_status :: "golib \<Rightarrow> bytes \<Rightarrow> string" where
  "decoded_status L b =
     Status (Unmarshal_OktaAuthResponse L b (OktaAuthResponse_lit YAK_STATUS_OK))"

definition pending :: "golib \<Rightarrow> http_result \<Rightarrow> bool" where
  "pending L r =
     (case r of
        http_error err \<Rightarrow> False
      | http_response resp \<Rightarrow>
          resp_StatusCode resp < 300
          \<and> (case resp_Body resp of
                ReadAll_ok b \<Rightarrow> decoded_status L b = ''MFA_CHALLENGE''
              | ReadAll_failed b err \<Rightarrow> False))"

text \<open>
  The events of a run of polls that are each failed or pending: one POST for each, followed
  by the dot on standard error and the sleep of five seconds when the poll is pending.
\<close>

fun poll_trace :: "golib \<Rightarrow> string \<Rightarrow> bytes \<Rightarrow> http_result list \<Rightarrow> event list" where
  "poll_trace L href pj [] = []"
| "poll_trace L href pj (r # rs) =
     (if pending L r then [Post href pj, Stderr ''.'', Sleep 5] else [Post href pj])
     @ poll_trace L href pj rs"



section \<open>A sample library and network\<close>

text \<open>
  Concrete values at which the theorems below are instantiated. Each library function of
  the sample is given by a table of the arguments the examples use.
\<close>

definition links_body :: bytes where
  \<open>links_body = ''{"_links":{"next":{"href":"https://example.okta.com/poll"}}}''\<close>

definition challenge_body :: bytes where
  \<open>challenge_body = ''{"status":"MFA_CHALLENGE"}''\<close>

definition success_body :: bytes where
  \<open>success_body = ''{"status":"SUCCESS","sessionToken":"tok"}''\<close>

definition rejected_body :: bytes where
  \<open>rejected_body = ''{"status":"REJECTED"}''\<close>

definition code_body :: bytes where
  \<open>code_body = ''{"YakStatusCode":1}''\<close>

definition sample_documents :: "(bytes \<times> json) list" where
  "sample_documents =
     [(links_body,
       JObject [(''_links'', JObject [(''next'',
         JObject [(''href'', JString ''https://example.okta.com/poll'')])])]),
      (challenge_body, JObject [(''status'', JString ''MFA_CHALLENGE'')]),
      (success_body,
       JObject [(''status'', JString ''SUCCESS''), (''sessionToken'', JString ''tok'')]),
      (rejected_body, JObject [(''status'', JString ''REJECTED'')]),
      (code_body, JObject [(''YakStatusCode'', JNumber ''1'')])]"

definition push_json :: bytes where
  \<open>push_json = ''{"stateToken":"00abc"}''\<close>

definition totp_json :: bytes where
  \<open>totp_json = ''{"stateToken":"00abc","passCode":"123456"}''\<close>

definition user_json :: bytes where
  \<open>user_json = ''{"username":"alice","password":"secret"}''\<close>

definition sample_encodings :: "(json \<times> bytes) list" where
  "sample_encodings =
     [(JObject [(''stateToken'', JString ''00abc'')], push_json),
      (JObject [(''stateToken'', JString ''00abc''), (''passCode'', JString ''123456'')],
       totp_json),
      (JObject [(''username'', JString ''alice''), (''password'', JString ''secret'')],
       user_json)]"

definition sample_input :: Token where
  "sample_input =
     \<lparr>Type = StartTagToken, Data = ''input'',
      Attr = [\<lparr>Namespace = [], Key = ''type'', Val = ''hidden''\<rparr>,
              \<lparr>Namespace = [], Key = ''name'', Val = ''SAMLResponse''\<rparr>,
              \<lparr>Namespace = [], Key = ''value'', Val = ''QUJD''\<rparr>]\<rparr>"

definition payload_page :: bytes where
  \<open>payload_page = ''<form><input type="hidden" name="SAMLResponse" value="QUJD"></form>''\<close>

definition empty_payload_page :: bytes where
  \<open>empty_payload_page = ''<form><input name="SAMLResponse"></form>''\<close>

definition plain_page :: bytes where
  "plain_page = ''<p>Sign in</p>''"

definition sample_pages :: "(bytes \<times> Token list) list" where
  "sample_pages =
     [(payload_page,
       [\<lparr>Type = StartTagToken, Data = ''form'', Attr = []\<rparr>, sample_input,
        \<lparr>Type = EndTagToken, Data = ''form'', Attr = []\<rparr>]),
      (empty_payload_page,
       [\<lparr>Type = StartTagToken, Data = ''form'', Attr = []\<rparr>,
        \<lparr>Type = StartTagToken, Data = ''input'',
         Attr = [\<lparr>Namespace = [], Key = ''name'', Val = ''SAMLResponse''\<rparr>]\<rparr>,
        \<lparr>Type = EndTagToken, Data = ''form'', Attr = []\<rparr>]),
      (plain_page,
       [\<lparr>Type = StartTagToken, Data = ''p'', Attr = []\<rparr>,
        \<lparr>Type = TextToken, Data = ''Sign in'', Attr = []\<rparr>,
        \<lparr>Type = EndTagToken, Data = ''p'', Attr = []\<rparr>])]"

definition sample_urls :: "(string \<times> URL) list" where
  "sample_urls =
     [(''https://example.okta.com'',
       \<lparr>Scheme = ''https'', Opaque = [], User = None, Host = ''example.okta.com'', Path = [],
        RawPath = [], ForceQuery = False, RawQuery = [], Fragment = []\<rparr>),
      (''/app/saml'',
       \<lparr>Scheme = [], Opaque = [], User = None, Host = [], Path = ''/app/saml'',
        RawPath = [], ForceQuery = False, RawQuery = [], Fragment = []\<rparr>)]"

definition sample_lib :: golib where
  "sample_lib =
     \<lparr>json_Marshal =
        (\<lambda>j. case map_of sample_encodings j of
               Some b \<Rightarrow> (b, None)
             | None \<Rightarrow> ([], Some (library_error ''json: unsupported value''))),
      json_parse = map_of sample_documents,
      decode_Embedded = (\<lambda>v r. r),
      url_Parse =
        (\<lambda>s. case map_of sample_urls s of
               Some u \<Rightarrow> Inr u
             | None \<Rightarrow> Inl (library_error ''parse: invalid URL'')),
      ResolveReference = (\<lambda>base ref. ref\<lparr>Scheme := Scheme base, Host := Host base\<rparr>),
      URL_String =
        (\<lambda>u. Scheme u @ ''://'' @ Host u @ Path u
             @ (if RawQuery u = [] then [] else ''?'' @ RawQuery u)),
      cookiejar_New = None,
      html_Tokens = (\<lambda>doc. case map_of sample_pages doc of Some ts \<Rightarrow> ts | None \<Rightarrow> [])\<rparr>"

definition ok200 :: "bytes \<Rightarrow> http_result" where
  "ok200 b =
     http_response \<lparr>resp_StatusCode = 200, resp_Status = ''200 OK'', resp_Body = ReadAll_ok b\<rparr>"

definition status401 :: http_result where
  "status401 =
     http_response \<lparr>resp_StatusCode = 401, resp_Status = ''401 Unauthorized'',
                    resp_Body = ReadAll_ok []\<rparr>"

definition status500 :: http_result where
  "status500 =
     http_response \<lparr>resp_StatusCode = 500, resp_Status = ''500 Internal Server Error'',
                    resp_Body = ReadAll_ok []\<rparr>"

definition truncated :: http_result where
  "truncated =
     http_response \<lparr>resp_StatusCode = 200, resp_Status = ''200 OK'',
                    resp_Body = ReadAll_failed ''{'' (library_error ''unexpected EOF'')\<rparr>"

definition refused :: http_result where
  "refused = http_error (library_error ''connection refused'')"

text \<open>
  A network that answers the POSTs from a script, in order, whatever their address, and
  every GET with one outcome.
\<close>

definition scripted :: "http_result list \<Rightarrow> http_result \<Rightarrow> world" where
  "scripted rs g =
     \<lparr>http_Post = (\<lambda>n url body. if n < length rs then rs ! n else refused),
      client_Get = (\<lambda>url. g)\<rparr>"

text \<open>
  A network whose first five polls are refused and whose sixth poll has the outcome \<open>x\<close>,
  and the trace of \<^verbatim>\<open>VerifyPush\<close> up to the fifth poll in it.
\<close>

definition five_refused :: "http_result list" where
  "five_refused = [refused, refused, refused, refused, refused]"

definition after_five_refused :: "http_result \<Rightarrow> world" where
  "after_five_refused x = scripted (ok200 links_body # five_refused @ [x]) refused"

definition five_refused_trace :: "event list" where
  "five_refused_trace =
     [Post ''https://example.okta.com/verify'' push_json, Stderr ''Waiting for MFA response'',
      Post ''https://example.okta.com/poll'' push_json,
      Post ''https://example.okta.com/poll'' push_json,
      Post ''https://example.okta.com/poll'' push_json,
      Post ''https://example.okta.com/poll'' push_json,
      Post ''https://example.okta.com/poll'' push_json]"

section \<open>Facts about the helper and the polling loop\<close>

lemma n_posts_Nil [simp]: "n_posts [] = 0"
  by (simp add: n_posts_def)

lemma n_posts_Cons [simp]: "n_posts (e # es) = (if is_Post e then 1 else 0) + n_posts es"
  by (simp add: n_posts_def)

lemma n_posts_append [simp]: "n_posts (xs @ ys) = n_posts xs + n_posts ys"
  by (simp add: n_posts_def)

lemma makeRequest_failed:
  assumes "failed (http_Post W (n_posts tr) url body)"
  shows "\<exists>b st e. makeRequest W url body tr = ((b, st, Some e), tr @ [Post url body])"
  using assms
  by (auto simp: failed_def makeRequest_def split: http_result.splits body_read.splits)

lemma makeRequest_delivered:
  assumes "delivered (http_Post W (n_posts tr) url body) b"
  shows "makeRequest W url body tr = ((b, YAK_STATUS_OK, None), tr @ [Post url body])"
  using assms
  by (auto simp: delivered_def makeRequest_def split: http_result.splits body_read.splits)

lemma makeRequest_unauthorised:
  assumes "http_Post W (n_posts tr) url body = http_response resp"
    and "resp_StatusCode resp = 401 \<or> resp_StatusCode resp = 403"
  shows "makeRequest W url body tr =
         (([], YAK_STATUS_UNAUTHORISED,
           Some (errors_New (''Unauthorised ('' @ resp_Status resp @ '')''))),
          tr @ [Post url body])"
  using assms by (auto simp: makeRequest_def)

lemma pending_delivered:
  "pending L r \<longleftrightarrow> (\<exists>b. delivered r b \<and> decoded_status L b = ''MFA_CHALLENGE'')"
  by (auto simp: pending_def delivered_def split: http_result.splits body_read.splits)

lemma failed_not_pending: "failed r \<Longrightarrow> \<not> pending L r"
  by (auto simp: failed_def pending_def split: http_result.splits body_read.splits)

lemma pollLoop_retry:
  assumes "makeRequest W href pj tr = ((b, st, Some e), tr')" and "r \<noteq> 1"
  shows "pollLoop L W href pj r tr = pollLoop L W href pj (r - 1) tr'"
  using assms by (subst pollLoop.simps) simp

lemma pollLoop_abort:
  assumes "makeRequest W href pj tr = ((b, st, Some e), tr')"
  shows "pollLoop L W href pj 1 tr =
         Some ((OktaAuthResponse_lit st, Some e),
               tr' @ [Stderr ''\<newline>Too many network errors, aborting...''])"
  using assms by (subst pollLoop.simps) simp

lemma pollLoop_pending:
  assumes "makeRequest W href pj tr = ((b, YAK_STATUS_OK, None), tr')"
    and "decoded_status L b = ''MFA_CHALLENGE''"
  shows "pollLoop L W href pj r tr = pollLoop L W href pj r (tr' @ [Stderr ''.'', Sleep 5])"
  using assms by (subst pollLoop.simps) (simp add: decoded_status_def Let_def)

lemma pollLoop_success:
  assumes "makeRequest W href pj tr = ((b, YAK_STATUS_OK, None), tr')"
    and "decoded_status L b = ''SUCCESS''"
  shows "pollLoop L W href pj r tr =
         Some ((Unmarshal_OktaAuthResponse L b (OktaAuthResponse_lit YAK_STATUS_OK), None),
               tr' @ [Stderr ''\<newline>''])"
  using assms by (subst pollLoop.simps) (simp add: decoded_status_def Let_def)

lemma pollLoop_bad_status:
  assumes "makeRequest W href pj tr = ((b, YAK_STATUS_OK, None), tr')"
    and "decoded_status L b \<noteq> ''MFA_CHALLENGE''" and "decoded_status L b \<noteq> ''SUCCESS''"
  shows "pollLoop L W href pj r tr =
         Some ((Unmarshal_OktaAuthResponse L b (OktaAuthResponse_lit YAK_STATUS_OK)
                  \<lparr>YakStatusCode := YAK_STATUS_BAD_RESPONSE\<rparr>,
                Some (errors_New (''Bad status from Okta API: '' @ decoded_status L b))),
               tr' @ [Stderr ''\<newline>''])"
  using assms by (subst pollLoop.simps) (simp add: decoded_status_def Let_def)

text \<open>
  A run of polls that are each failed or pending, with fewer failures than the counter
  holds, takes the loop to the state after them: the counter lowered by the number of
  failures, whatever their order, and the trace extended by the events of the polls.
\<close>

lemma pollLoop_prefix:
  assumes "\<forall>k < length rs. http_Post W (n_posts tr + k) href pj = rs ! k"
    and "\<forall>x \<in> set rs. failed x \<or> pending L x"
    and "int (length (filter failed rs)) < r"
  shows "pollLoop L W href pj r tr =
         pollLoop L W href pj (r - int (length (filter failed rs)))
           (tr @ poll_trace L href pj rs)"
  using assms
proof (induction rs arbitrary: r tr)
  case Nil
  then show ?case by simp
next
  case (Cons x xs)
  have x: "http_Post W (n_posts tr) href pj = x"
    using Cons.prems(1) by auto
  have rest: "\<forall>k < length xs. http_Post W (n_posts tr + 1 + k) href pj = xs ! k"
  proof (intro allI impI)
    fix k assume "k < length xs"
    then have "http_Post W (n_posts tr + Suc k) href pj = (x # xs) ! Suc k"
      using Cons.prems(1) by (metis Suc_less_eq length_Cons)
    then show "http_Post W (n_posts tr + 1 + k) href pj = xs ! k" by simp
  qed
  show ?case
  proof (cases "failed x")
    case True
    obtain b st e where mr: "makeRequest W href pj tr = ((b, st, Some e), tr @ [Post href pj])"
      using makeRequest_failed[of W tr href pj] x True by auto
    have r1: "r \<noteq> 1" using Cons.prems(3) True by auto
    have "pollLoop L W href pj r tr = pollLoop L W href pj (r - 1) (tr @ [Post href pj])"
      by (rule pollLoop_retry[OF mr r1])
    also have "\<dots> = pollLoop L W href pj (r - 1 - int (length (filter failed xs)))
                      ((tr @ [Post href pj]) @ poll_trace L href pj xs)"
      using rest Cons.prems(2,3) True by (intro Cons.IH) auto
    finally show ?thesis using True failed_not_pending[of x L] by (simp add: diff_diff_eq)
  next
    case False
    then have p: "pending L x" using Cons.prems(2) by auto
    then obtain b where d: "delivered x b" and s: "decoded_status L b = ''MFA_CHALLENGE''"
      by (auto simp: pending_delivered)
    have mr: "makeRequest W href pj tr = ((b, YAK_STATUS_OK, None), tr @ [Post href pj])"
      using makeRequest_delivered[of W tr href pj b] x d by simp
    have "pollLoop L W href pj r tr =
          pollLoop L W href pj r ((tr @ [Post href pj]) @ [Stderr ''.'', Sleep 5])"
      by (rule pollLoop_pending[OF mr s])
    also have "\<dots> = pollLoop L W href pj (r - int (length (filter failed xs)))
                      (((tr @ [Post href pj]) @ [Stderr ''.'', Sleep 5]) @ poll_trace L href pj xs)"
      using rest Cons.prems(2,3) False by (intro Cons.IH) auto
    finally show ?thesis using False p by simp
  qed
qed

lemma n_posts_poll_trace [simp]: "n_posts (poll_trace L href pj rs) = length rs"
  by (induction rs) auto

lemma poll_trace_pending:
  "\<forall>x \<in> set rs. pending L x \<Longrightarrow>
   poll_trace L href pj rs = concat (replicate (length rs) [Post href pj, Stderr ''.'', Sleep 5])"
  by (induction rs) auto

lemma filter_failed_pending: "\<forall>x \<in> set rs. pending L x \<Longrightarrow> filter failed rs = []"
  by (induction rs) (auto dest: failed_not_pending)

text \<open>
  \<^verbatim>\<open>VerifyPush\<close> up to the state of its loop after a run of polls: the request that
  starts the push is delivered, and the polls of the run are each failed or pending, with
  fewer than six failures.
\<close>

lemma VerifyPush_prefix:
  assumes m: "json_Marshal L (PushRequest_json p) = (pj, None)"
    and d0: "delivered (http_Post W (n_posts tr) url pj) b0"
    and h: "href = Href (PollLink (Links
              (Unmarshal_PushRequestResponse L b0 PushRequestResponse_zero)))"
    and rs: "\<forall>k < length rs. http_Post W (n_posts tr + 1 + k) href pj = rs ! k"
    and fp: "\<forall>x \<in> set rs. failed x \<or> pending L x"
    and lt: "length (filter failed rs) < 6"
  shows "VerifyPush L W url p tr =
         pollLoop L W href pj (6 - int (length (filter failed rs)))
           (tr @ [Post url pj, Stderr ''Waiting for MFA response''] @ poll_trace L href pj rs)"
proof -
  let ?tr0 = "tr @ [Post url pj, Stderr ''Waiting for MFA response'']"
  have "VerifyPush L W url p tr = pollLoop L W href pj 6 ?tr0"
    using m makeRequest_delivered[OF d0] h by (simp add: VerifyPush_def)
  also have "\<dots> = pollLoop L W href pj (6 - int (length (filter failed rs)))
                    (?tr0 @ poll_trace L href pj rs)"
    using rs fp lt by (intro pollLoop_prefix) auto
  finally show ?thesis by simp
qed

lemma makeRequest_http_error:
  assumes "http_Post W (n_posts tr) url body = http_error e"
  shows "makeRequest W url body tr = (([], YAK_STATUS_NET_ERROR, Some e), tr @ [Post url body])"
  using assms by (simp add: makeRequest_def)

lemma makeRequest_bad_status:
  assumes "http_Post W (n_posts tr) url body = http_response resp"
    and "resp_StatusCode resp \<ge> 300"
    and "resp_StatusCode resp \<noteq> 401" and "resp_StatusCode resp \<noteq> 403"
  shows "makeRequest W url body tr =
         (([], YAK_STATUS_NET_ERROR,
           Some (errors_New (''Network error ('' @ resp_Status resp @ '')''))),
          tr @ [Post url body])"
  using assms by (simp add: makeRequest_def)

lemma makeRequest_read_failed:
  assumes "http_Post W (n_posts tr) url body = http_response resp"
    and "resp_StatusCode resp < 300"
    and "resp_Body resp = ReadAll_failed b e"
  shows "makeRequest W url body tr =
         ((b, YAK_STATUS_BAD_RESPONSE, Some e), tr @ [Post url body])"
  using assms by (auto simp: makeRequest_def)

text \<open>
  The sixth failed poll: after a run of failed and pending polls that holds five failures,
  a poll for which the helper returns an error ends \<^verbatim>\<open>VerifyPush\<close> with the status code
  and the error of that poll.
\<close>

lemma VerifyPush_abort:
  assumes "json_Marshal L (PushRequest_json p) = (pj, None)"
    and "delivered (http_Post W (n_posts tr) url pj) b0"
    and "href = Href (PollLink (Links
           (Unmarshal_PushRequestResponse L b0 PushRequestResponse_zero)))"
    and "\<forall>k < length rs. http_Post W (n_posts tr + 1 + k) href pj = rs ! k"
    and "\<forall>x \<in> set rs. failed x \<or> pending L x"
    and "length (filter failed rs) = 5"
    and "makeRequest W href pj
           (tr @ [Post url pj, Stderr ''Waiting for MFA response''] @ poll_trace L href pj rs)
         = ((b, st, Some e), tr')"
  shows "VerifyPush L W url p tr =
         Some ((OktaAuthResponse_lit st, Some e),
               tr' @ [Stderr ''\<newline>Too many network errors, aborting...''])"
proof -
  have "VerifyPush L W url p tr =
        pollLoop L W href pj 1
          (tr @ [Post url pj, Stderr ''Waiting for MFA response''] @ poll_trace L href pj rs)"
    using VerifyPush_prefix[OF assms(1-5)] assms(6) by simp
  then show ?thesis
    using pollLoop_abort[OF assms(7), of L] by simp
qed

lemma n_posts_run:
  "n_posts (tr @ [Post url pj, Stderr s] @ poll_trace L href pj rs) = n_posts tr + 1 + length rs"
  by simp

section \<open>Evaluating the sample library and network\<close>

lemmas sample_bodies = links_body_def challenge_body_def success_body_def rejected_body_def
  code_body_def

lemmas decode_defs = Unmarshal_OktaAuthResponse_def Unmarshal_PushRequestResponse_def
  decode_struct_def find_field_def OktaAuthResponse_fields_def store_OktaAuthResponse_def
  store_PushRequestResponse_def store_PushRequestResponseLinks_def store_OktaLink_def
  OktaAuthResponse_lit_def PushRequestResponse_zero_def

lemma sample_Marshal_push:
  "json_Marshal sample_lib (PushRequest_json \<lparr>push_StateToken = ''00abc''\<rparr>) = (push_json, None)"
  by (simp add: sample_lib_def sample_encodings_def PushRequest_json_def)

lemma sample_poll_link:
  "Href (PollLink (Links (Unmarshal_PushRequestResponse sample_lib links_body
     PushRequestResponse_zero))) = ''https://example.okta.com/poll''"
  by (simp add: decode_defs sample_lib_def sample_documents_def sample_bodies)

lemma sample_challenge: "decoded_status sample_lib challenge_body = ''MFA_CHALLENGE''"
  by (simp add: decoded_status_def decode_defs sample_lib_def sample_documents_def sample_bodies)

lemma sample_success: "decoded_status sample_lib success_body = ''SUCCESS''"
  by (simp add: decoded_status_def decode_defs sample_lib_def sample_documents_def sample_bodies)

lemma sample_rejected: "decoded_status sample_lib rejected_body = ''REJECTED''"
  by (simp add: decoded_status_def decode_defs sample_lib_def sample_documents_def sample_bodies)

lemma sample_session:
  "Unmarshal_OktaAuthResponse sample_lib success_body (OktaAuthResponse_lit YAK_STATUS_OK) =
   (OktaAuthResponse_lit YAK_STATUS_OK)\<lparr>SessionToken := ''tok'', Status := ''SUCCESS''\<rparr>"
  by (simp add: decode_defs sample_lib_def sample_documents_def sample_bodies)

lemma sample_rejected_session:
  "Unmarshal_OktaAuthResponse sample_lib rejected_body (OktaAuthResponse_lit YAK_STATUS_OK) =
   (OktaAuthResponse_lit YAK_STATUS_OK)\<lparr>Status := ''REJECTED''\<rparr>"
  by (simp add: decode_defs sample_lib_def sample_documents_def sample_bodies)

lemma sample_code_session:
  "Unmarshal_OktaAuthResponse sample_lib code_body (OktaAuthResponse_lit YAK_STATUS_OK) =
   OktaAuthResponse_lit YAK_STATUS_UNAUTHORISED"
  by (simp add: decode_defs sample_lib_def sample_documents_def sample_bodies
      ParseInt_def digit_val_def YAK_STATUS_UNAUTHORISED_def)

lemma scripted_first: "http_Post (scripted (x # xs) g) (n_posts []) url body = x"
  by (simp add: scripted_def)

lemma scripted_run:
  "\<forall>k < length rs. http_Post (scripted (x # rs @ ys) g) (n_posts [] + 1 + k) url body = rs ! k"
  by (simp add: scripted_def nth_append)

lemma scripted_next:
  "http_Post (scripted (x # rs @ y # ys) g) (n_posts [] + 1 + length rs) url body = y"
  by (simp add: scripted_def nth_append)

lemma delivered_ok200: "delivered (ok200 b) b' \<longleftrightarrow> b' = b"
  by (auto simp: delivered_def ok200_def)

lemma pending_ok200: "pending L (ok200 b) \<longleftrightarrow> decoded_status L b = ''MFA_CHALLENGE''"
  by (simp add: pending_def ok200_def)

lemma failed_samples:
  "failed refused" "failed status401" "failed status500" "failed truncated" "\<not> failed (ok200 b)"
  by (simp_all add: failed_def refused_def status401_def status500_def truncated_def ok200_def)

lemma five_refused_first:
  "delivered (http_Post (after_five_refused x) (n_posts []) url body) links_body"
  unfolding after_five_refused_def by (simp only: scripted_first delivered_ok200)

lemma five_refused_run:
  "\<forall>k < length five_refused.
     http_Post (after_five_refused x) (n_posts [] + 1 + k) url body = five_refused ! k"
  unfolding after_five_refused_def by (rule scripted_run)

lemma five_refused_next:
  "http_Post (after_five_refused x) (n_posts [] + 1 + length five_refused) url body = x"
  unfolding after_five_refused_def by (rule scripted_next)

lemma five_refused_failed:
  "\<forall>x \<in> set five_refused. failed x \<or> pending L x" "length (filter failed five_refused) = 5"
  by (simp_all add: five_refused_def failed_samples)

lemma five_refused_poll_trace:
  "[] @ [Post ''https://example.okta.com/verify'' push_json, Stderr ''Waiting for MFA response'']
      @ poll_trace sample_lib ''https://example.okta.com/poll'' push_json five_refused
   = five_refused_trace"
  using failed_not_pending[of refused sample_lib]
  by (simp add: five_refused_def five_refused_trace_def failed_samples)

lemma five_refused_abort:
  assumes "makeRequest (after_five_refused x) ''https://example.okta.com/poll'' push_json
             five_refused_trace = ((b, st, Some e), tr')"
  shows "VerifyPush sample_lib (after_five_refused x) ''https://example.okta.com/verify''
           \<lparr>push_StateToken = ''00abc''\<rparr> [] =
         Some ((OktaAuthResponse_lit st, Some e),
               tr' @ [Stderr ''\<newline>Too many network errors, aborting...''])"
proof -
  have mr: "makeRequest (after_five_refused x) ''https://example.okta.com/poll'' push_json
              ([] @ [Post ''https://example.okta.com/verify'' push_json,
                     Stderr ''Waiting for MFA response'']
                  @ poll_trace sample_lib ''https://example.okta.com/poll'' push_json
                      five_refused)
            = ((b, st, Some e), tr')"
    using assms by (simp only: five_refused_poll_trace)
  show ?thesis
    by (rule VerifyPush_abort[OF sample_Marshal_push five_refused_first[of x]
          sample_poll_link[symmetric] five_refused_run[of x] five_refused_failed(1)
          five_refused_failed(2) mr])
qed

lemma five_refused_sixth:
  "http_Post (after_five_refused x) (n_posts five_refused_trace) url body = x"
  using five_refused_next[of x url body]
  by (simp add: five_refused_trace_def five_refused_def)

section \<open>Push polling\<close>

text \<open>
  C2. When the request that starts the push is delivered and the poll link answers
  \<^verbatim>\<open>MFA_CHALLENGE\<close> exactly \<open>N\<close> times and then \<^verbatim>\<open>SUCCESS\<close>, with no failed poll,
  \<^verbatim>\<open>VerifyPush\<close> returns: it makes exactly \<open>N + 1\<close> polls, sleeps five seconds after
  each \<^verbatim>\<open>MFA_CHALLENGE\<close> answer and not after the last answer, and returns the session
  decoded from the last answer with a nil error.
\<close>

theorem VerifyPush_pending_then_success:
  assumes "json_Marshal L (PushRequest_json p) = (pj, None)"
    and "delivered (http_Post W (n_posts tr) url pj) b0"
    and "href = Href (PollLink (Links
           (Unmarshal_PushRequestResponse L b0 PushRequestResponse_zero)))"
    and "\<forall>k < N. pending L (http_Post W (n_posts tr + 1 + k) href pj)"
    and "delivered (http_Post W (n_posts tr + 1 + N) href pj) b"
    and "decoded_status L b = ''SUCCESS''"
  shows "VerifyPush L W url p tr =
         Some ((Unmarshal_OktaAuthResponse L b (OktaAuthResponse_lit YAK_STATUS_OK), None),
               tr @ [Post url pj, Stderr ''Waiting for MFA response'']
                  @ concat (replicate N [Post href pj, Stderr ''.'', Sleep 5])
                  @ [Post href pj, Stderr ''\<newline>''])"
proof -
  define rs where "rs = map (\<lambda>k. http_Post W (n_posts tr + 1 + k) href pj) [0..<N]"
  have len: "length rs = N" by (simp add: rs_def)
  have nth: "\<forall>k < length rs. http_Post W (n_posts tr + 1 + k) href pj = rs ! k"
    by (simp add: rs_def)
  have pend: "\<forall>x \<in> set rs. pending L x"
    using assms(4) by (auto simp: rs_def)
  have nofail: "filter failed rs = []"
    by (rule filter_failed_pending[OF pend])
  let ?tr = "tr @ [Post url pj, Stderr ''Waiting for MFA response''] @ poll_trace L href pj rs"
  have "VerifyPush L W url p tr = pollLoop L W href pj 6 ?tr"
    using VerifyPush_prefix[OF assms(1,2,3) nth] pend nofail by simp
  moreover have "makeRequest W href pj ?tr = ((b, YAK_STATUS_OK, None), ?tr @ [Post href pj])"
    using assms(5) len by (intro makeRequest_delivered) (simp add: add.commute add.left_commute)
  ultimately show ?thesis
    using pollLoop_success[of W href pj ?tr b _ L 6] assms(6) poll_trace_pending[OF pend, of href pj] len
    by simp
qed

theorem VerifyPush_pending_then_success_witness:
  "VerifyPush sample_lib
     (scripted [ok200 links_body, ok200 challenge_body, ok200 challenge_body, ok200 success_body]
        refused)
     ''https://example.okta.com/verify'' \<lparr>push_StateToken = ''00abc''\<rparr> [] =
   Some (((OktaAuthResponse_lit YAK_STATUS_OK)\<lparr>SessionToken := ''tok'', Status := ''SUCCESS''\<rparr>,
          None),
         [Post ''https://example.okta.com/verify'' push_json, Stderr ''Waiting for MFA response'',
          Post ''https://example.okta.com/poll'' push_json, Stderr ''.'', Sleep 5,
          Post ''https://example.okta.com/poll'' push_json, Stderr ''.'', Sleep 5,
          Post ''https://example.okta.com/poll'' push_json, Stderr ''\<newline>''])"
proof -
  let ?W = "scripted (ok200 links_body # [ok200 challenge_body, ok200 challenge_body]
                        @ ok200 success_body # []) refused"
  let ?href = "''https://example.okta.com/poll''"
  have h2: "delivered (http_Post ?W (n_posts []) ''https://example.okta.com/verify'' push_json)
              links_body"
    by (simp only: scripted_first delivered_ok200)
  have h4: "\<forall>k < 2. pending sample_lib (http_Post ?W (n_posts [] + 1 + k) ?href push_json)"
  proof (intro allI impI)
    fix k :: nat
    assume "k < 2"
    then have "k < length [ok200 challenge_body, ok200 challenge_body]" by simp
    then have "http_Post ?W (n_posts [] + 1 + k) ?href push_json
               = [ok200 challenge_body, ok200 challenge_body] ! k"
      using scripted_run by blast
    moreover have "k = 0 \<or> k = 1" using \<open>k < 2\<close> by auto
    ultimately show "pending sample_lib (http_Post ?W (n_posts [] + 1 + k) ?href push_json)"
      by (auto simp: pending_ok200 sample_challenge)
  qed
  have h5: "delivered (http_Post ?W (n_posts [] + 1 + 2) ?href push_json) success_body"
    using scripted_next[of "ok200 links_body" "[ok200 challenge_body, ok200 challenge_body]"
        "ok200 success_body" "[]" refused ?href push_json]
    by (simp add: delivered_ok200)
  show ?thesis
    using VerifyPush_pending_then_success[OF sample_Marshal_push h2 sample_poll_link[symmetric]
        h4 h5 sample_success]
    by (simp add: sample_session eval_nat_numeral)
qed

text \<open>
  C3. At whatever point of the polling it arrives (after any run of failed and pending polls
  that has not used up the six failures), a delivered poll answer whose status is neither
  \<^verbatim>\<open>MFA_CHALLENGE\<close> nor \<^verbatim>\<open>SUCCESS\<close> ends the loop at once: no further POST is made, and
  the result is the session marked \<^verbatim>\<open>YAK_STATUS_BAD_RESPONSE\<close> with an error whose
  message ends in the status as it was received. With an empty run this is the first status
  check.
\<close>

theorem VerifyPush_other_status:
  assumes "json_Marshal L (PushRequest_json p) = (pj, None)"
    and "delivered (http_Post W (n_posts tr) url pj) b0"
    and "href = Href (PollLink (Links
           (Unmarshal_PushRequestResponse L b0 PushRequestResponse_zero)))"
    and "\<forall>k < length rs. http_Post W (n_posts tr + 1 + k) href pj = rs ! k"
    and "\<forall>x \<in> set rs. failed x \<or> pending L x"
    and "length (filter failed rs) < 6"
    and "delivered (http_Post W (n_posts tr + 1 + length rs) href pj) b"
    and "decoded_status L b \<noteq> ''MFA_CHALLENGE''"
    and "decoded_status L b \<noteq> ''SUCCESS''"
  shows "VerifyPush L W url p tr =
         Some ((Unmarshal_OktaAuthResponse L b (OktaAuthResponse_lit YAK_STATUS_OK)
                  \<lparr>YakStatusCode := YAK_STATUS_BAD_RESPONSE\<rparr>,
                Some (errors_New (''Bad status from Okta API: '' @ decoded_status L b))),
               tr @ [Post url pj, Stderr ''Waiting for MFA response'']
                  @ poll_trace L href pj rs @ [Post href pj, Stderr ''\<newline>''])"
proof -
  let ?tr = "tr @ [Post url pj, Stderr ''Waiting for MFA response''] @ poll_trace L href pj rs"
  have "makeRequest W href pj ?tr = ((b, YAK_STATUS_OK, None), ?tr @ [Post href pj])"
    using assms(7) by (intro makeRequest_delivered) (simp add: add.commute add.left_commute)
  then show ?thesis
    using VerifyPush_prefix[OF assms(1-6)]
      pollLoop_bad_status[of W href pj ?tr b _ L, OF _ assms(8,9)]
    by simp
qed

theorem VerifyPush_other_status_witness:
  "VerifyPush sample_lib (scripted [ok200 links_body, ok200 rejected_body] refused)
     ''https://example.okta.com/verify'' \<lparr>push_StateToken = ''00abc''\<rparr> [] =
   Some (((OktaAuthResponse_lit YAK_STATUS_OK)
            \<lparr>Status := ''REJECTED'', YakStatusCode := YAK_STATUS_BAD_RESPONSE\<rparr>,
          Some (errors_New ''Bad status from Okta API: REJECTED'')),
         [Post ''https://example.okta.com/verify'' push_json, Stderr ''Waiting for MFA response'',
          Post ''https://example.okta.com/poll'' push_json, Stderr ''\<newline>''])"
proof -
  let ?W = "scripted (ok200 links_body # [] @ ok200 rejected_body # []) refused"
  let ?href = "''https://example.okta.com/poll''"
  have h2: "delivered (http_Post ?W (n_posts []) ''https://example.okta.com/verify'' push_json)
              links_body"
    by (simp only: scripted_first delivered_ok200)
  have h4: "\<forall>k < length []. http_Post ?W (n_posts [] + 1 + k) ?href push_json = [] ! k"
    by simp
  have h5: "\<forall>x \<in> set []. failed x \<or> pending sample_lib x"
    by simp
  have h6: "length (filter failed []) < 6"
    by simp
  have h7: "delivered (http_Post ?W (n_posts [] + 1 + length []) ?href push_json) rejected_body"
    using scripted_next[of "ok200 links_body" "[]" "ok200 rejected_body" "[]" refused ?href
        push_json]
    by (simp add: delivered_ok200)
  have h8: "decoded_status sample_lib rejected_body \<noteq> ''MFA_CHALLENGE''"
    and h9: "decoded_status sample_lib rejected_body \<noteq> ''SUCCESS''"
    by (simp_all add: sample_rejected)
  show ?thesis
    using VerifyPush_other_status[OF sample_Marshal_push h2 sample_poll_link[symmetric]
        h4 h5 h6 h7 h8 h9]
    by (simp add: sample_rejected_session sample_rejected)
qed

text \<open>
  C1, as amended. Failed polls are tolerated up to six in total over the whole loop: the
  counter is lowered by each failed poll, of whatever kind, and never raised again, so
  failures count whether or not pending answers lie between them, and a failed poll is
  followed by the next poll without a sleep. After a run of failed and pending polls that
  holds five failures, in any order, the next failed poll ends the loop, with no further POST
  and with the status code and the error of that poll: \<^verbatim>\<open>YAK_STATUS_NET_ERROR\<close> for an
  error of the client and for a status of 300 or more other than 401 and 403,
  \<^verbatim>\<open>YAK_STATUS_UNAUTHORISED\<close> for 401 and 403, \<^verbatim>\<open>YAK_STATUS_BAD_RESPONSE\<close> for a body
  that cannot be read to its end. After a run that holds at most five failures, a
  \<^verbatim>\<open>SUCCESS\<close> answer returns the session with a nil error.
\<close>

theorem VerifyPush_failure_budget:
  assumes "json_Marshal L (PushRequest_json p) = (pj, None)"
    and "delivered (http_Post W (n_posts tr) url pj) b0"
    and "href = Href (PollLink (Links
           (Unmarshal_PushRequestResponse L b0 PushRequestResponse_zero)))"
    and "\<forall>k < length rs. http_Post W (n_posts tr + 1 + k) href pj = rs ! k"
    and "\<forall>x \<in> set rs. failed x \<or> pending L x"
  shows "(length (filter failed rs) = 5
          \<and> http_Post W (n_posts tr + 1 + length rs) href pj = http_error e
          \<longrightarrow> VerifyPush L W url p tr =
              Some ((OktaAuthResponse_lit YAK_STATUS_NET_ERROR, Some e),
                    tr @ [Post url pj, Stderr ''Waiting for MFA response'']
                       @ poll_trace L href pj rs
                       @ [Post href pj, Stderr ''\<newline>Too many network errors, aborting...'']))
       \<and> (length (filter failed rs) = 5
          \<and> http_Post W (n_posts tr + 1 + length rs) href pj = http_response resp
          \<and> resp_StatusCode resp \<ge> 300
          \<and> resp_StatusCode resp \<noteq> 401 \<and> resp_StatusCode resp \<noteq> 403
          \<longrightarrow> VerifyPush L W url p tr =
              Some ((OktaAuthResponse_lit YAK_STATUS_NET_ERROR,
                     Some (errors_New (''Network error ('' @ resp_Status resp @ '')''))),
                    tr @ [Post url pj, Stderr ''Waiting for MFA response'']
                       @ poll_trace L href pj rs
                       @ [Post href pj, Stderr ''\<newline>Too many network errors, aborting...'']))
       \<and> (length (filter failed rs) = 5
          \<and> http_Post W (n_posts tr + 1 + length rs) href pj = http_response resp
          \<and> (resp_StatusCode resp = 401 \<or> resp_StatusCode resp = 403)
          \<longrightarrow> VerifyPush L W url p tr =
              Some ((OktaAuthResponse_lit YAK_STATUS_UNAUTHORISED,
                     Some (errors_New (''Unauthorised ('' @ resp_Status resp @ '')''))),
                    tr @ [Post url pj, Stderr ''Waiting for MFA response'']
                       @ poll_trace L href pj rs
                       @ [Post href pj, Stderr ''\<newline>Too many network errors, aborting...'']))
       \<and> (length (filter failed rs) = 5
          \<and> http_Post W (n_posts tr + 1 + length rs) href pj = http_response resp
          \<and> resp_StatusCode resp < 300 \<and> resp_Body resp = ReadAll_failed b' e
          \<longrightarrow> VerifyPush L W url p tr =
              Some ((OktaAuthResponse_lit YAK_STATUS_BAD_RESPONSE, Some e),
                    tr @ [Post url pj, Stderr ''Waiting for MFA response'']
                       @ poll_trace L href pj rs
                       @ [Post href pj, Stderr ''\<newline>Too many network errors, aborting...'']))
       \<and> (length (filter failed rs) \<le> 5
          \<and> delivered (http_Post W (n_posts tr + 1 + length rs) href pj) b
          \<and> decoded_status L b = ''SUCCESS''
          \<longrightarrow> VerifyPush L W url p tr =
              Some ((Unmarshal_OktaAuthResponse L b (OktaAuthResponse_lit YAK_STATUS_OK), None),
                    tr @ [Post url pj, Stderr ''Waiting for MFA response'']
                       @ poll_trace L href pj rs @ [Post href pj, Stderr ''\<newline>'']))"
proof -
  let ?tr = "tr @ [Post url pj, Stderr ''Waiting for MFA response''] @ poll_trace L href pj rs"
  let ?stop = "Stderr ''\<newline>Too many network errors, aborting...''"
  have idx: "n_posts ?tr = n_posts tr + 1 + length rs"
    by (rule n_posts_run)
  have abort: "VerifyPush L W url p tr = Some ((OktaAuthResponse_lit st, Some err), tr' @ [?stop])"
    if "length (filter failed rs) = 5"
      and "makeRequest W href pj ?tr = ((body, st, Some err), tr')" for body st err tr'
    using VerifyPush_abort[OF assms that] .
  have A: "VerifyPush L W url p tr =
           Some ((OktaAuthResponse_lit YAK_STATUS_NET_ERROR, Some e),
                 tr @ [Post url pj, Stderr ''Waiting for MFA response''] @ poll_trace L href pj rs
                    @ [Post href pj, ?stop])"
    if a: "length (filter failed rs) = 5
           \<and> http_Post W (n_posts tr + 1 + length rs) href pj = http_error e"
  proof -
    have "http_Post W (n_posts ?tr) href pj = http_error e"
      using a by (simp only: idx)
    from abort[OF _ makeRequest_http_error[OF this]] a show ?thesis by simp
  qed
  have B: "VerifyPush L W url p tr =
           Some ((OktaAuthResponse_lit YAK_STATUS_NET_ERROR,
                  Some (errors_New (''Network error ('' @ resp_Status resp @ '')''))),
                 tr @ [Post url pj, Stderr ''Waiting for MFA response''] @ poll_trace L href pj rs
                    @ [Post href pj, ?stop])"
    if a: "length (filter failed rs) = 5
           \<and> http_Post W (n_posts tr + 1 + length rs) href pj = http_response resp
           \<and> resp_StatusCode resp \<ge> 300
           \<and> resp_StatusCode resp \<noteq> 401 \<and> resp_StatusCode resp \<noteq> 403"
  proof -
    have "http_Post W (n_posts ?tr) href pj = http_response resp"
      using a by (simp only: idx)
    from abort[OF _ makeRequest_bad_status[OF this]] a show ?thesis by simp
  qed
  have C: "VerifyPush L W url p tr =
           Some ((OktaAuthResponse_lit YAK_STATUS_UNAUTHORISED,
                  Some (errors_New (''Unauthorised ('' @ resp_Status resp @ '')''))),
                 tr @ [Post url pj, Stderr ''Waiting for MFA response''] @ poll_trace L href pj rs
                    @ [Post href pj, ?stop])"
    if a: "length (filter failed rs) = 5
           \<and> http_Post W (n_posts tr + 1 + length rs) href pj = http_response resp
           \<and> (resp_StatusCode resp = 401 \<or> resp_StatusCode resp = 403)"
  proof -
    have "http_Post W (n_posts ?tr) href pj = http_response resp"
      using a by (simp only: idx)
    from abort[OF _ makeRequest_unauthorised[OF this]] a show ?thesis by simp
  qed
  have D: "VerifyPush L W url p tr =
           Some ((OktaAuthResponse_lit YAK_STATUS_BAD_RESPONSE, Some e),
                 tr @ [Post url pj, Stderr ''Waiting for MFA response''] @ poll_trace L href pj rs
                    @ [Post href pj, ?stop])"
    if a: "length (filter failed rs) = 5
           \<and> http_Post W (n_posts tr + 1 + length rs) href pj = http_response resp
           \<and> resp_StatusCode resp < 300 \<and> resp_Body resp = ReadAll_failed b' e"
  proof -
    have "http_Post W (n_posts ?tr) href pj = http_response resp"
      using a by (simp only: idx)
    from abort[OF _ makeRequest_read_failed[OF this, of b' e]] a show ?thesis by simp
  qed
  have E: "VerifyPush L W url p tr =
           Some ((Unmarshal_OktaAuthResponse L b (OktaAuthResponse_lit YAK_STATUS_OK), None),
                 tr @ [Post url pj, Stderr ''Waiting for MFA response''] @ poll_trace L href pj rs
                    @ [Post href pj, Stderr ''\<newline>''])"
    if a: "length (filter failed rs) \<le> 5
           \<and> delivered (http_Post W (n_posts tr + 1 + length rs) href pj) b
           \<and> decoded_status L b = ''SUCCESS''"
  proof -
    have "delivered (http_Post W (n_posts ?tr) href pj) b"
      using a by (simp only: idx)
    then have mr: "makeRequest W href pj ?tr = ((b, YAK_STATUS_OK, None), ?tr @ [Post href pj])"
      by (rule makeRequest_delivered)
    have "VerifyPush L W url p tr =
          pollLoop L W href pj (6 - int (length (filter failed rs))) ?tr"
      using VerifyPush_prefix[OF assms] a by simp
    then show ?thesis
      using pollLoop_success[OF mr, of L] a by simp
  qed
  from A B C D E show ?thesis by blast
qed

theorem VerifyPush_failure_budget_witness:
  "VerifyPush sample_lib (after_five_refused refused) ''https://example.okta.com/verify''
     \<lparr>push_StateToken = ''00abc''\<rparr> [] =
   Some ((OktaAuthResponse_lit YAK_STATUS_NET_ERROR, Some (library_error ''connection refused'')),
         five_refused_trace
           @ [Post ''https://example.okta.com/poll'' push_json,
              Stderr ''\<newline>Too many network errors, aborting...''])
   \<and> VerifyPush sample_lib (after_five_refused status500) ''https://example.okta.com/verify''
     \<lparr>push_StateToken = ''00abc''\<rparr> [] =
   Some ((OktaAuthResponse_lit YAK_STATUS_NET_ERROR,
          Some (errors_New ''Network error (500 Internal Server Error)'')),
         five_refused_trace
           @ [Post ''https://example.okta.com/poll'' push_json,
              Stderr ''\<newline>Too many network errors, aborting...''])
   \<and> VerifyPush sample_lib (after_five_refused status401) ''https://example.okta.com/verify''
     \<lparr>push_StateToken = ''00abc''\<rparr> [] =
   Some ((OktaAuthResponse_lit YAK_STATUS_UNAUTHORISED,
          Some (errors_New ''Unauthorised (401 Unauthorized)'')),
         five_refused_trace
           @ [Post ''https://example.okta.com/poll'' push_json,
              Stderr ''\<newline>Too many network errors, aborting...''])
   \<and> VerifyPush sample_lib (after_five_refused truncated) ''https://example.okta.com/verify''
     \<lparr>push_StateToken = ''00abc''\<rparr> [] =
   Some ((OktaAuthResponse_lit YAK_STATUS_BAD_RESPONSE, Some (library_error ''unexpected EOF'')),
         five_refused_trace
           @ [Post ''https://example.okta.com/poll'' push_json,
              Stderr ''\<newline>Too many network errors, aborting...''])
   \<and> VerifyPush sample_lib (after_five_refused (ok200 success_body))
     ''https://example.okta.com/verify'' \<lparr>push_StateToken = ''00abc''\<rparr> [] =
   Some (((OktaAuthResponse_lit YAK_STATUS_OK)\<lparr>SessionToken := ''tok'', Status := ''SUCCESS''\<rparr>,
          None),
         five_refused_trace
           @ [Post ''https://example.okta.com/poll'' push_json, Stderr ''\<newline>''])"
proof -
  let ?href = "''https://example.okta.com/poll''"
  let ?r500 = "\<lparr>resp_StatusCode = 500, resp_Status = ''500 Internal Server Error'',
                 resp_Body = ReadAll_ok []\<rparr>"
  let ?r401 = "\<lparr>resp_StatusCode = 401, resp_Status = ''401 Unauthorized'',
                 resp_Body = ReadAll_ok []\<rparr>"
  let ?rtr = "\<lparr>resp_StatusCode = 200, resp_Status = ''200 OK'',
                resp_Body = ReadAll_failed ''{'' (library_error ''unexpected EOF'')\<rparr>"
  have n: "\<And>x. http_Post (after_five_refused x) (n_posts [] + 1 + length five_refused) ?href
             push_json = x"
    by (rule five_refused_next)
  have a: "VerifyPush sample_lib (after_five_refused refused) ''https://example.okta.com/verify''
             \<lparr>push_StateToken = ''00abc''\<rparr> [] =
           Some ((OktaAuthResponse_lit YAK_STATUS_NET_ERROR,
                  Some (library_error ''connection refused'')),
                 five_refused_trace
                   @ [Post ?href push_json,
                      Stderr ''\<newline>Too many network errors, aborting...''])"
    using VerifyPush_failure_budget[OF sample_Marshal_push five_refused_first[of refused]
        sample_poll_link[symmetric] five_refused_run[of refused] five_refused_failed(1),
        where e = "library_error ''connection refused''"] n[of refused]
      five_refused_failed(2)
    unfolding five_refused_poll_trace[symmetric]
    by (simp add: refused_def)
  have b: "VerifyPush sample_lib (after_five_refused status500) ''https://example.okta.com/verify''
             \<lparr>push_StateToken = ''00abc''\<rparr> [] =
           Some ((OktaAuthResponse_lit YAK_STATUS_NET_ERROR,
                  Some (errors_New ''Network error (500 Internal Server Error)'')),
                 five_refused_trace
                   @ [Post ?href push_json,
                      Stderr ''\<newline>Too many network errors, aborting...''])"
    using VerifyPush_failure_budget[OF sample_Marshal_push five_refused_first[of status500]
        sample_poll_link[symmetric] five_refused_run[of status500] five_refused_failed(1),
        where resp = ?r500] n[of status500] five_refused_failed(2)
    unfolding five_refused_poll_trace[symmetric]
    by (simp add: status500_def)
  have c: "VerifyPush sample_lib (after_five_refused status401) ''https://example.okta.com/verify''
             \<lparr>push_StateToken = ''00abc''\<rparr> [] =
           Some ((OktaAuthResponse_lit YAK_STATUS_UNAUTHORISED,
                  Some (errors_New ''Unauthorised (401 Unauthorized)'')),
                 five_refused_trace
                   @ [Post ?href push_json,
                      Stderr ''\<newline>Too many network errors, aborting...''])"
    using VerifyPush_failure_budget[OF sample_Marshal_push five_refused_first[of status401]
        sample_poll_link[symmetric] five_refused_run[of status401] five_refused_failed(1),
        where resp = ?r401] n[of status401] five_refused_failed(2)
    unfolding five_refused_poll_trace[symmetric]
    by (simp add: status401_def)
  have d: "VerifyPush sample_lib (after_five_refused truncated) ''https://example.okta.com/verify''
             \<lparr>push_StateToken = ''00abc''\<rparr> [] =
           Some ((OktaAuthResponse_lit YAK_STATUS_BAD_RESPONSE,
                  Some (library_error ''unexpected EOF'')),
                 five_refused_trace
                   @ [Post ?href push_json,
                      Stderr ''\<newline>Too many network errors, aborting...''])"
    using VerifyPush_failure_budget[OF sample_Marshal_push five_refused_first[of truncated]
        sample_poll_link[symmetric] five_refused_run[of truncated] five_refused_failed(1),
        where e = "library_error ''unexpected EOF''" and resp = ?rtr
        and b' = "''{''"] n[of truncated]
      five_refused_failed(2)
    unfolding five_refused_poll_trace[symmetric]
    by (simp add: truncated_def)
  have e: "VerifyPush sample_lib (after_five_refused (ok200 success_body))
             ''https://example.okta.com/verify'' \<lparr>push_StateToken = ''00abc''\<rparr> [] =
           Some (((OktaAuthResponse_lit YAK_STATUS_OK)
                    \<lparr>SessionToken := ''tok'', Status := ''SUCCESS''\<rparr>, None),
                 five_refused_trace @ [Post ?href push_json, Stderr ''\<newline>''])"
    using VerifyPush_failure_budget[OF sample_Marshal_push five_refused_first[of "ok200 success_body"]
        sample_poll_link[symmetric] five_refused_run[of "ok200 success_body"] five_refused_failed(1),
        where b = success_body] n[of "ok200 success_body"]
      five_refused_failed(2)
    unfolding five_refused_poll_trace[symmetric]
    by (simp add: delivered_ok200 sample_success sample_session)
  from a b c d e show ?thesis by blast
qed

text \<open>
  C1 as stated asks for six consecutive failures and for a network-failure result. Here the
  loop gives up on the seventh poll, after two runs of three failures with a pending answer
  between them; and when the sixth failed poll is a body that cannot be read, or a 401, the
  loop ends with \<^verbatim>\<open>YAK_STATUS_BAD_RESPONSE\<close>, or \<^verbatim>\<open>YAK_STATUS_UNAUTHORISED\<close>, where
  the statement has \<^verbatim>\<open>YAK_STATUS_NET_ERROR\<close>.
\<close>

theorem VerifyPush_failures_not_consecutive:
  "\<not> failed (ok200 challenge_body)
   \<and> VerifyPush sample_lib
     (scripted [ok200 links_body, refused, refused, refused, ok200 challenge_body,
                refused, refused, refused] (ok200 success_body))
     ''https://example.okta.com/verify'' \<lparr>push_StateToken = ''00abc''\<rparr> [] =
   Some ((OktaAuthResponse_lit YAK_STATUS_NET_ERROR, Some (library_error ''connection refused'')),
         [Post ''https://example.okta.com/verify'' push_json, Stderr ''Waiting for MFA response'',
          Post ''https://example.okta.com/poll'' push_json,
          Post ''https://example.okta.com/poll'' push_json,
          Post ''https://example.okta.com/poll'' push_json,
          Post ''https://example.okta.com/poll'' push_json, Stderr ''.'', Sleep 5,
          Post ''https://example.okta.com/poll'' push_json,
          Post ''https://example.okta.com/poll'' push_json,
          Post ''https://example.okta.com/poll'' push_json,
          Stderr ''\<newline>Too many network errors, aborting...''])
   \<and> VerifyPush sample_lib (after_five_refused truncated) ''https://example.okta.com/verify''
     \<lparr>push_StateToken = ''00abc''\<rparr> [] =
   Some ((OktaAuthResponse_lit YAK_STATUS_BAD_RESPONSE, Some (library_error ''unexpected EOF'')),
         five_refused_trace
           @ [Post ''https://example.okta.com/poll'' push_json,
              Stderr ''\<newline>Too many network errors, aborting...''])
   \<and> YAK_STATUS_BAD_RESPONSE \<noteq> YAK_STATUS_NET_ERROR
   \<and> VerifyPush sample_lib (after_five_refused status401) ''https://example.okta.com/verify''
     \<lparr>push_StateToken = ''00abc''\<rparr> [] =
   Some ((OktaAuthResponse_lit YAK_STATUS_UNAUTHORISED,
          Some (errors_New ''Unauthorised (401 Unauthorized)'')),
         five_refused_trace
           @ [Post ''https://example.okta.com/poll'' push_json,
              Stderr ''\<newline>Too many network errors, aborting...''])
   \<and> YAK_STATUS_UNAUTHORISED \<noteq> YAK_STATUS_NET_ERROR"
proof -
  let ?rs = "[refused, refused, refused, ok200 challenge_body, refused, refused]"
  let ?href = "''https://example.okta.com/poll''"
  let ?url = "''https://example.okta.com/verify''"
  let ?W = "scripted (ok200 links_body # ?rs @ refused # []) (ok200 success_body)"
  let ?tr = "[] @ [Post ?url push_json, Stderr ''Waiting for MFA response'']
               @ poll_trace sample_lib ?href push_json ?rs"
  have pend: "pending sample_lib (ok200 challenge_body)"
    by (simp add: pending_ok200 sample_challenge)
  have no_dots: "\<not> pending sample_lib refused"
    by (simp add: failed_not_pending failed_samples)
  have fp: "\<forall>x \<in> set ?rs. failed x \<or> pending sample_lib x"
    by (simp add: failed_samples pend)
  have five: "length (filter failed ?rs) = 5"
    by (simp add: failed_samples)
  have d: "delivered (http_Post ?W (n_posts []) ?url push_json) links_body"
    by (simp only: scripted_first delivered_ok200)
  have run: "\<forall>k < length ?rs. http_Post ?W (n_posts [] + 1 + k) ?href push_json = ?rs ! k"
    by (rule scripted_run)
  have "http_Post ?W (n_posts ?tr) ?href push_json = refused"
    using scripted_next[of "ok200 links_body" ?rs refused "[]" "ok200 success_body" ?href
        push_json]
    by (simp add: add.commute)
  then have mr: "makeRequest ?W ?href push_json ?tr =
                 (([], YAK_STATUS_NET_ERROR, Some (library_error ''connection refused'')),
                  ?tr @ [Post ?href push_json])"
    by (simp add: makeRequest_def refused_def)
  have one: "VerifyPush sample_lib
     (scripted [ok200 links_body, refused, refused, refused, ok200 challenge_body,
                refused, refused, refused] (ok200 success_body))
     ?url \<lparr>push_StateToken = ''00abc''\<rparr> [] =
   Some ((OktaAuthResponse_lit YAK_STATUS_NET_ERROR, Some (library_error ''connection refused'')),
         [Post ?url push_json, Stderr ''Waiting for MFA response'',
          Post ?href push_json, Post ?href push_json, Post ?href push_json,
          Post ?href push_json, Stderr ''.'', Sleep 5,
          Post ?href push_json, Post ?href push_json, Post ?href push_json,
          Stderr ''\<newline>Too many network errors, aborting...''])"
    using VerifyPush_abort[OF sample_Marshal_push d sample_poll_link[symmetric] run fp five mr]
      pend no_dots
    by (simp add: failed_samples)
  have "http_Post (after_five_refused truncated) (n_posts five_refused_trace) ?href push_json
        = http_response \<lparr>resp_StatusCode = 200, resp_Status = ''200 OK'',
            resp_Body = ReadAll_failed ''{'' (library_error ''unexpected EOF'')\<rparr>"
    by (simp only: five_refused_sixth truncated_def)
  from makeRequest_read_failed[OF this, of "''{''" "library_error ''unexpected EOF''"]
  have "makeRequest (after_five_refused truncated) ?href push_json five_refused_trace =
             ((''{'', YAK_STATUS_BAD_RESPONSE, Some (library_error ''unexpected EOF'')),
              five_refused_trace @ [Post ?href push_json])"
    by simp
  from five_refused_abort[OF this] have two: "VerifyPush sample_lib (after_five_refused truncated) ?url
                    \<lparr>push_StateToken = ''00abc''\<rparr> [] =
                  Some ((OktaAuthResponse_lit YAK_STATUS_BAD_RESPONSE,
                         Some (library_error ''unexpected EOF'')),
                        five_refused_trace
                          @ [Post ?href push_json,
                             Stderr ''\<newline>Too many network errors, aborting...''])"
    by simp
  have "http_Post (after_five_refused status401) (n_posts five_refused_trace) ?href push_json
        = http_response \<lparr>resp_StatusCode = 401, resp_Status = ''401 Unauthorized'',
            resp_Body = ReadAll_ok []\<rparr>"
    by (simp only: five_refused_sixth status401_def)
  from makeRequest_unauthorised[OF this]
  have "makeRequest (after_five_refused status401) ?href push_json five_refused_trace =
             (([], YAK_STATUS_UNAUTHORISED,
               Some (errors_New ''Unauthorised (401 Unauthorized)'')),
              five_refused_trace @ [Post ?href push_json])"
    by simp
  from five_refused_abort[OF this] have three: "VerifyPush sample_lib (after_five_refused status401) ?url
                      \<lparr>push_StateToken = ''00abc''\<rparr> [] =
                    Some ((OktaAuthResponse_lit YAK_STATUS_UNAUTHORISED,
                           Some (errors_New ''Unauthorised (401 Unauthorized)'')),
                          five_refused_trace
                            @ [Post ?href push_json,
                               Stderr ''\<newline>Too many network errors, aborting...''])"
    by simp
  have codes: "YAK_STATUS_BAD_RESPONSE \<noteq> YAK_STATUS_NET_ERROR"
    "YAK_STATUS_UNAUTHORISED \<noteq> YAK_STATUS_NET_ERROR"
    by (simp_all add: YAK_STATUS_BAD_RESPONSE_def YAK_STATUS_NET_ERROR_def
        YAK_STATUS_UNAUTHORISED_def)
  from one two three codes failed_samples(5)[of challenge_body] show ?thesis
    by blast
qed

lemma sample_Marshal_user:
  "json_Marshal sample_lib (UserData_json \<lparr>Username = ''alice'', Password = ''secret''\<rparr>)
   = (user_json, None)"
  by (simp add: sample_lib_def sample_encodings_def UserData_json_def)

lemma sample_Marshal_totp:
  "json_Marshal sample_lib (TotpRequest_json \<lparr>totp_StateToken = ''00abc'', PassCode = ''123456''\<rparr>)
   = (totp_json, None)"
  by (simp add: sample_lib_def sample_encodings_def TotpRequest_json_def)

lemma sample_url_Parse:
  "url_Parse sample_lib ''https://example.okta.com'' =
   Inr \<lparr>Scheme = ''https'', Opaque = [], User = None, Host = ''example.okta.com'', Path = [],
        RawPath = [], ForceQuery = False, RawQuery = [], Fragment = []\<rparr>"
  by (simp add: sample_lib_def sample_urls_def)

lemma sample_authn_url:
  "URL_String sample_lib (ResolveReference sample_lib
     \<lparr>Scheme = ''https'', Opaque = [], User = None, Host = ''example.okta.com'', Path = [],
      RawPath = [], ForceQuery = False, RawQuery = [], Fragment = []\<rparr> primaryAuthEndpoint)
   = ''https://example.okta.com/api/v1/authn''"
  by (simp add: sample_lib_def primaryAuthEndpoint_def)

section \<open>Classification of the transport outcome\<close>

text \<open>
  C5. The transport helper makes one POST and classifies its outcome: an error of the client
  gives \<^verbatim>\<open>YAK_STATUS_NET_ERROR\<close> with an empty body and that error; a response with status
  401 or 403 gives \<^verbatim>\<open>YAK_STATUS_UNAUTHORISED\<close>; a response with any other status of 300
  or more gives \<^verbatim>\<open>YAK_STATUS_NET_ERROR\<close>; otherwise the body is read to its end, a failure
  of the read gives \<^verbatim>\<open>YAK_STATUS_BAD_RESPONSE\<close> with the bytes read so far and the error
  of the read, and a complete read gives the raw bytes with \<^verbatim>\<open>YAK_STATUS_OK\<close> and a nil
  error.
\<close>

theorem makeRequest_classification:
  "(http_Post W (n_posts tr) url body = http_error err
      \<longrightarrow> makeRequest W url body tr = (([], YAK_STATUS_NET_ERROR, Some err), tr @ [Post url body]))
   \<and> (http_Post W (n_posts tr) url body = http_response resp
       \<and> (resp_StatusCode resp = 401 \<or> resp_StatusCode resp = 403)
      \<longrightarrow> makeRequest W url body tr =
          (([], YAK_STATUS_UNAUTHORISED,
            Some (errors_New (''Unauthorised ('' @ resp_Status resp @ '')''))),
           tr @ [Post url body]))
   \<and> (http_Post W (n_posts tr) url body = http_response resp
       \<and> resp_StatusCode resp \<ge> 300
       \<and> resp_StatusCode resp \<noteq> 401 \<and> resp_StatusCode resp \<noteq> 403
      \<longrightarrow> makeRequest W url body tr =
          (([], YAK_STATUS_NET_ERROR,
            Some (errors_New (''Network error ('' @ resp_Status resp @ '')''))),
           tr @ [Post url body]))
   \<and> (http_Post W (n_posts tr) url body = http_response resp
       \<and> resp_StatusCode resp < 300 \<and> resp_Body resp = ReadAll_failed b err
      \<longrightarrow> makeRequest W url body tr =
          ((b, YAK_STATUS_BAD_RESPONSE, Some err), tr @ [Post url body]))
   \<and> (http_Post W (n_posts tr) url body = http_response resp
       \<and> resp_StatusCode resp < 300 \<and> resp_Body resp = ReadAll_ok b
      \<longrightarrow> makeRequest W url body tr = ((b, YAK_STATUS_OK, None), tr @ [Post url body]))"
  by (auto simp: makeRequest_def)

theorem makeRequest_classification_witness:
  "makeRequest (scripted [refused] refused) ''u'' ''b'' [] =
     (([], YAK_STATUS_NET_ERROR, Some (library_error ''connection refused'')), [Post ''u'' ''b''])
   \<and> makeRequest (scripted [status401] refused) ''u'' ''b'' [] =
     (([], YAK_STATUS_UNAUTHORISED, Some (errors_New ''Unauthorised (401 Unauthorized)'')),
      [Post ''u'' ''b''])
   \<and> makeRequest (scripted [status500] refused) ''u'' ''b'' [] =
     (([], YAK_STATUS_NET_ERROR, Some (errors_New ''Network error (500 Internal Server Error)'')),
      [Post ''u'' ''b''])
   \<and> makeRequest (scripted [truncated] refused) ''u'' ''b'' [] =
     ((''{'', YAK_STATUS_BAD_RESPONSE, Some (library_error ''unexpected EOF'')),
      [Post ''u'' ''b''])
   \<and> makeRequest (scripted [ok200 success_body] refused) ''u'' ''b'' [] =
     ((success_body, YAK_STATUS_OK, None), [Post ''u'' ''b''])"
proof -
  let ?r401 = "\<lparr>resp_StatusCode = 401, resp_Status = ''401 Unauthorized'',
                 resp_Body = ReadAll_ok []\<rparr>"
  let ?r500 = "\<lparr>resp_StatusCode = 500, resp_Status = ''500 Internal Server Error'',
                 resp_Body = ReadAll_ok []\<rparr>"
  let ?rtr = "\<lparr>resp_StatusCode = 200, resp_Status = ''200 OK'',
                resp_Body = ReadAll_failed ''{'' (library_error ''unexpected EOF'')\<rparr>"
  let ?rok = "\<lparr>resp_StatusCode = 200, resp_Status = ''200 OK'',
                resp_Body = ReadAll_ok success_body\<rparr>"
  have a: "http_Post (scripted [refused] refused) (n_posts []) ''u'' ''b''
           = http_error (library_error ''connection refused'')"
    by (simp add: scripted_def refused_def)
  have b: "http_Post (scripted [status401] refused) (n_posts []) ''u'' ''b'' = http_response ?r401"
    by (simp add: scripted_def status401_def)
  have c: "http_Post (scripted [status500] refused) (n_posts []) ''u'' ''b'' = http_response ?r500"
    by (simp add: scripted_def status500_def)
  have d: "http_Post (scripted [truncated] refused) (n_posts []) ''u'' ''b'' = http_response ?rtr"
    by (simp add: scripted_def truncated_def)
  have e: "http_Post (scripted [ok200 success_body] refused) (n_posts []) ''u'' ''b''
           = http_response ?rok"
    by (simp add: scripted_def ok200_def)
  show ?thesis
    using makeRequest_classification[of "scripted [refused] refused" "[]" "''u''" "''b''"
        "library_error ''connection refused''"]
      makeRequest_classification[of "scripted [status401] refused" "[]" "''u''" "''b''" _ ?r401]
      makeRequest_classification[of "scripted [status500] refused" "[]" "''u''" "''b''" _ ?r500]
      makeRequest_classification[of "scripted [truncated] refused" "[]" "''u''" "''b''"
        "library_error ''unexpected EOF''" ?rtr "''{''"]
      makeRequest_classification[of "scripted [ok200 success_body] refused" "[]" "''u''" "''b''" _
        ?rok success_body]
      a b c d e
    by simp
qed

section \<open>Unauthorised outcomes\<close>




section \<open>Status code and error\<close>

text \<open>
  An error is never returned with \<^verbatim>\<open>YAK_STATUS_OK\<close>: by the helper, which returns
  \<^verbatim>\<open>YAK_STATUS_OK\<close> exactly with a nil error, and by the three operations built on it.
\<close>

lemma makeRequest_error_status:
  "makeRequest W url body tr = ((b, st, Some e), tr') \<Longrightarrow> st \<noteq> YAK_STATUS_OK"
  by (auto simp: makeRequest_def YAK_STATUS_OK_def YAK_STATUS_NET_ERROR_def
      YAK_STATUS_UNAUTHORISED_def YAK_STATUS_BAD_RESPONSE_def
      split: http_result.splits body_read.splits if_splits)

lemma Authenticate_error_status:
  "snd (fst (Authenticate L W oktaHref userData tr)) \<noteq> None \<Longrightarrow>
   YakStatusCode (fst (fst (Authenticate L W oktaHref userData tr))) \<noteq> YAK_STATUS_OK"
proof -
  have "YAK_STATUS_DATA_ERROR \<noteq> YAK_STATUS_OK"
    by (simp add: YAK_STATUS_DATA_ERROR_def YAK_STATUS_OK_def)
  then show "snd (fst (Authenticate L W oktaHref userData tr)) \<noteq> None \<Longrightarrow>
   YakStatusCode (fst (fst (Authenticate L W oktaHref userData tr))) \<noteq> YAK_STATUS_OK"
    by (auto simp: Authenticate_def OktaAuthResponse_lit_def
        dest: makeRequest_error_status split: prod.splits option.splits sum.splits)
qed

lemma pollLoop_error_status:
  assumes "pollLoop L W href pj r tr = Some y"
  shows "snd (fst y) \<noteq> None \<longrightarrow> YakStatusCode (fst (fst y)) \<noteq> YAK_STATUS_OK"
proof (rule pollLoop.raw_induct[where P = "\<lambda>L W href pj r tr y.
         snd (fst y) \<noteq> None \<longrightarrow> YakStatusCode (fst (fst y)) \<noteq> YAK_STATUS_OK", OF _ assms])
  fix pollLoop' :: "golib \<Rightarrow> world \<Rightarrow> string \<Rightarrow> bytes \<Rightarrow> int \<Rightarrow> event list
     \<Rightarrow> ((OktaAuthResponse \<times> error option) \<times> event list) option"
  fix L W href pj r tr y
  assume IH: "\<And>L W href pj r tr y. pollLoop' L W href pj r tr = Some y \<Longrightarrow>
              snd (fst y) \<noteq> None \<longrightarrow> YakStatusCode (fst (fst y)) \<noteq> YAK_STATUS_OK"
  assume step: "(case makeRequest W href pj tr of
      ((body, yakStatus, None), tr') \<Rightarrow>
        let authResponse =
              Unmarshal_OktaAuthResponse L body (OktaAuthResponse_lit yakStatus)
        in if Status authResponse \<noteq> ''MFA_CHALLENGE''
           then if Status authResponse = ''SUCCESS''
                then Some ((authResponse, None), tr' @ [Stderr ''\<newline>''])
                else Some
                      ((authResponse\<lparr>YakStatusCode := YAK_STATUS_BAD_RESPONSE\<rparr>,
                        Some (errors_New (''Bad status from Okta API: '' @ Status authResponse))),
                       tr' @ [Stderr ''\<newline>''])
           else pollLoop' L W href pj r (tr' @ [Stderr ''.'', Sleep 5])
      | ((body, yakStatus, Some err), tr') \<Rightarrow>
          if r - 1 = 0
          then Some
                ((OktaAuthResponse_lit yakStatus, Some err),
                 tr' @ [Stderr ''\<newline>Too many network errors, aborting...''])
          else pollLoop' L W href pj (r - 1) tr') = Some y"
  obtain b st err tr1 where mr: "makeRequest W href pj tr = ((b, st, err), tr1)"
    by (metis prod.exhaust)
  have bad: "YAK_STATUS_BAD_RESPONSE \<noteq> YAK_STATUS_OK"
    by (simp add: YAK_STATUS_BAD_RESPONSE_def YAK_STATUS_OK_def)
  show "snd (fst y) \<noteq> None \<longrightarrow> YakStatusCode (fst (fst y)) \<noteq> YAK_STATUS_OK"
  proof (cases err)
    case None
    then show ?thesis
      using step mr bad IH by (auto simp: Let_def split: if_splits)
  next
    case (Some x)
    then have "st \<noteq> YAK_STATUS_OK"
      using mr makeRequest_error_status by blast
    then show ?thesis
      using step mr Some IH by (auto simp: OktaAuthResponse_lit_def split: if_splits)
  qed
qed

lemma VerifyPush_error_status:
  assumes "VerifyPush L W url p tr = Some y"
  shows "snd (fst y) \<noteq> None \<longrightarrow> YakStatusCode (fst (fst y)) \<noteq> YAK_STATUS_OK"
proof -
  have data: "YAK_STATUS_DATA_ERROR \<noteq> YAK_STATUS_OK"
    by (simp add: YAK_STATUS_DATA_ERROR_def YAK_STATUS_OK_def)
  show ?thesis
    using assms data
    by (auto simp: VerifyPush_def OktaAuthResponse_lit_def
        dest: makeRequest_error_status pollLoop_error_status
        split: prod.splits option.splits)
qed

lemma VerifyTotp_error_status:
  "snd (fst (VerifyTotp L W url t tr)) \<noteq> None \<Longrightarrow>
   YakStatusCode (fst (fst (VerifyTotp L W url t tr))) \<noteq> YAK_STATUS_OK"
proof -
  have "YAK_STATUS_DATA_ERROR \<noteq> YAK_STATUS_OK"
    by (simp add: YAK_STATUS_DATA_ERROR_def YAK_STATUS_OK_def)
  then show "snd (fst (VerifyTotp L W url t tr)) \<noteq> None \<Longrightarrow>
   YakStatusCode (fst (fst (VerifyTotp L W url t tr))) \<noteq> YAK_STATUS_OK"
    by (auto simp: VerifyTotp_def OktaAuthResponse_lit_def
        dest: makeRequest_error_status split: prod.splits option.splits)
qed

lemma Unmarshal_malformed:
  "json_parse L body = None \<Longrightarrow> Unmarshal_OktaAuthResponse L body r = r"
  by (simp add: Unmarshal_OktaAuthResponse_def)

lemma Unmarshal_status_code:
  "json_parse L body = Some (JObject [(''YakStatusCode'', JNumber ''1'')]) \<Longrightarrow>
   Unmarshal_OktaAuthResponse L body (OktaAuthResponse_lit YAK_STATUS_OK)
   = OktaAuthResponse_lit YAK_STATUS_UNAUTHORISED"
  by (simp add: decode_defs ParseInt_def digit_val_def YAK_STATUS_UNAUTHORISED_def)

lemma makeRequest_ok_iff:
  "fst (snd (fst (makeRequest W url body tr))) = YAK_STATUS_OK
   \<longleftrightarrow> snd (snd (fst (makeRequest W url body tr))) = None"
  by (simp add: makeRequest_def YAK_STATUS_OK_def YAK_STATUS_NET_ERROR_def
      YAK_STATUS_UNAUTHORISED_def YAK_STATUS_BAD_RESPONSE_def
      split: http_result.split body_read.split)

text \<open>
  C6. With its request delivered, \<^verbatim>\<open>Authenticate\<close> returns a nil error whatever the body
  holds, and for a body that is not well-formed JSON the zero session marked
  \<^verbatim>\<open>YAK_STATUS_OK\<close>. The status code is not \<^verbatim>\<open>YAK_STATUS_OK\<close> for every body, though:
  \<^verbatim>\<open>YakStatusCode\<close> is an exported field with no tag that keeps it out of the decoding, so
  a JSON object with a member of that name overwrites the code that \<^verbatim>\<open>Authenticate\<close> has
  set before decoding. For the body \<^verbatim>\<open>{"YakStatusCode":1}\<close> the session returned is marked
  \<^verbatim>\<open>YAK_STATUS_UNAUTHORISED\<close>, with a nil error.
\<close>

theorem Authenticate_status_from_body:
  assumes "json_Marshal L (UserData_json userData) = (authBody, None)"
    and "url_Parse L oktaHref = Inr oktaUrl"
    and "url = URL_String L (ResolveReference L oktaUrl primaryAuthEndpoint)"
    and "delivered (http_Post W (n_posts tr) url authBody) body"
  shows "snd (fst (Authenticate L W oktaHref userData tr)) = None
    \<and> (json_parse L body = None
        \<longrightarrow> Authenticate L W oktaHref userData tr =
            ((OktaAuthResponse_lit YAK_STATUS_OK, None), tr @ [Post url authBody]))
    \<and> (json_parse L body = Some (JObject [(''YakStatusCode'', JNumber ''1'')])
        \<longrightarrow> Authenticate L W oktaHref userData tr =
            ((OktaAuthResponse_lit YAK_STATUS_UNAUTHORISED, None), tr @ [Post url authBody]))"
  using assms makeRequest_delivered[of W tr url authBody body]
  by (simp add: Authenticate_def Unmarshal_malformed Unmarshal_status_code)

theorem Authenticate_status_from_body_witness:
  "Authenticate sample_lib (scripted [ok200 ''<html>''] refused) ''https://example.okta.com''
     \<lparr>Username = ''alice'', Password = ''secret''\<rparr> [] =
     ((OktaAuthResponse_lit YAK_STATUS_OK, None),
      [Post ''https://example.okta.com/api/v1/authn'' user_json])
   \<and> Authenticate sample_lib (scripted [ok200 code_body] refused) ''https://example.okta.com''
     \<lparr>Username = ''alice'', Password = ''secret''\<rparr> [] =
     ((OktaAuthResponse_lit YAK_STATUS_UNAUTHORISED, None),
      [Post ''https://example.okta.com/api/v1/authn'' user_json])"
proof -
  let ?url = "''https://example.okta.com/api/v1/authn''"
  have a: "delivered (http_Post (scripted [ok200 ''<html>''] refused) (n_posts []) ?url user_json)
             ''<html>''"
    by (simp only: scripted_first delivered_ok200)
  have b: "delivered (http_Post (scripted [ok200 code_body] refused) (n_posts []) ?url user_json)
             code_body"
    by (simp only: scripted_first delivered_ok200)
  have pa: "json_parse sample_lib ''<html>'' = None"
    by (simp add: sample_lib_def sample_documents_def sample_bodies)
  have pb: "json_parse sample_lib code_body = Some (JObject [(''YakStatusCode'', JNumber ''1'')])"
    by (simp add: sample_lib_def sample_documents_def sample_bodies)
  show ?thesis
    using Authenticate_status_from_body[OF sample_Marshal_user sample_url_Parse
        sample_authn_url[symmetric] a]
      Authenticate_status_from_body[OF sample_Marshal_user sample_url_Parse
        sample_authn_url[symmetric] b]
      pa pb
    by simp
qed

text \<open>
  C9. A nil error does not imply \<^verbatim>\<open>YAK_STATUS_OK\<close>: for the body
  \<^verbatim>\<open>{"YakStatusCode":1}\<close>, delivered with status 200, \<^verbatim>\<open>VerifyTotp\<close> returns a nil error
  with \<^verbatim>\<open>YAK_STATUS_UNAUTHORISED\<close>. (The other direction holds, by the lemmas above.)
\<close>

theorem VerifyTotp_nil_error_without_ok:
  assumes "json_Marshal L (TotpRequest_json totpRequestBody) = (totpJson, None)"
    and "delivered (http_Post W (n_posts tr) url totpJson) body"
    and "json_parse L body = Some (JObject [(''YakStatusCode'', JNumber ''1'')])"
  shows "VerifyTotp L W url totpRequestBody tr =
           ((OktaAuthResponse_lit YAK_STATUS_UNAUTHORISED, None), tr @ [Post url totpJson])
    \<and> YAK_STATUS_UNAUTHORISED \<noteq> YAK_STATUS_OK"
proof
  show "VerifyTotp L W url totpRequestBody tr =
          ((OktaAuthResponse_lit YAK_STATUS_UNAUTHORISED, None), tr @ [Post url totpJson])"
    using assms makeRequest_delivered[of W tr url totpJson body]
    by (simp add: VerifyTotp_def Unmarshal_status_code)
  show "YAK_STATUS_UNAUTHORISED \<noteq> YAK_STATUS_OK"
    by (simp add: YAK_STATUS_UNAUTHORISED_def YAK_STATUS_OK_def)
qed

theorem VerifyTotp_nil_error_without_ok_witness:
  "VerifyTotp sample_lib (scripted [ok200 code_body] refused) ''https://example.okta.com/verify''
     \<lparr>totp_StateToken = ''00abc'', PassCode = ''123456''\<rparr> [] =
   ((OktaAuthResponse_lit YAK_STATUS_UNAUTHORISED, None),
    [Post ''https://example.okta.com/verify'' totp_json])"
proof -
  let ?url = "''https://example.okta.com/verify''"
  have b: "delivered (http_Post (scripted [ok200 code_body] refused) (n_posts []) ?url totp_json)
             code_body"
    by (simp only: scripted_first delivered_ok200)
  have pb: "json_parse sample_lib code_body = Some (JObject [(''YakStatusCode'', JNumber ''1'')])"
    by (simp add: sample_lib_def sample_documents_def sample_bodies)
  show ?thesis
    using VerifyTotp_nil_error_without_ok[OF sample_Marshal_totp b pb]
    by simp
qed

section \<open>Query strings\<close>

lemma char_eq_code: "c = d \<longleftrightarrow> (of_char c :: nat) = of_char d"
  by simp

lemma of_char_upperhex:
  "d < 16 \<Longrightarrow> (of_char (upperhex d) :: nat) = (if d < 10 then 48 + d else 55 + d)"
  by (simp add: upperhex_def)

lemma ishex_upperhex: "d < 16 \<Longrightarrow> ishex (upperhex d)"
  by (simp add: ishex_def of_char_upperhex)

lemma unhex_upperhex: "d < 16 \<Longrightarrow> unhex (upperhex d) = d"
  by (simp add: unhex_def of_char_upperhex)

lemma upperhex_no_separator:
  "d < 16 \<Longrightarrow> upperhex d \<noteq> CHR ''&'' \<and> upperhex d \<noteq> CHR '';'' \<and> upperhex d \<noteq> CHR ''=''"
  by (simp add: char_eq_code of_char_upperhex)

lemma shouldEscape_reserved:
  "shouldEscape (CHR ''&'')" "shouldEscape (CHR '';'')" "shouldEscape (CHR ''='')"
  "shouldEscape (CHR ''%'')" "shouldEscape (CHR ''+'')"
  by (simp_all add: shouldEscape_def)

lemma div_mod_char: "(of_char c :: nat) div 16 < 16" "(of_char c :: nat) mod 16 < 16"
proof -
  have "(of_char c :: nat) < 256" by simp
  then show "(of_char c :: nat) div 16 < 16" by arith
  show "(of_char c :: nat) mod 16 < 16" by simp
qed

lemma QueryEscape_no_separator:
  "x \<in> set (QueryEscape s) \<Longrightarrow> x \<noteq> CHR ''&'' \<and> x \<noteq> CHR '';'' \<and> x \<noteq> CHR ''=''"
proof (induction s)
  case Nil
  then show ?case by simp
next
  case (Cons c s)
  show ?case
  proof (cases "c = CHR '' ''")
    case True
    then show ?thesis using Cons by auto
  next
    case False
    show ?thesis
    proof (cases "shouldEscape c")
      case True
      then show ?thesis
        using Cons False upperhex_no_separator[OF div_mod_char(1)[of c]]
          upperhex_no_separator[OF div_mod_char(2)[of c]]
        by auto
    next
      case esc: False
      then have "c \<noteq> CHR ''&'' \<and> c \<noteq> CHR '';'' \<and> c \<noteq> CHR ''=''"
        using shouldEscape_reserved by auto
      then show ?thesis using Cons False esc by auto
    qed
  qed
qed

lemma QueryUnescape_QueryEscape: "QueryUnescape (QueryEscape s) = Some s"
proof (induction s)
  case Nil
  then show ?case by simp
next
  case (Cons c s)
  show ?case
  proof (cases "c = CHR '' ''")
    case True
    then show ?thesis using Cons by simp
  next
    case False
    show ?thesis
    proof (cases "shouldEscape c")
      case True
      have "char_of (of_char c div 16 * 16 + of_char c mod 16 :: nat) = c"
        by simp
      then show ?thesis
        using Cons False True ishex_upperhex[OF div_mod_char(1)[of c]]
          ishex_upperhex[OF div_mod_char(2)[of c]]
          unhex_upperhex[OF div_mod_char(1)[of c]] unhex_upperhex[OF div_mod_char(2)[of c]]
        by simp
    next
      case esc: False
      then have "c \<noteq> CHR ''%''" and "c \<noteq> CHR ''+''"
        using shouldEscape_reserved by auto
      then show ?thesis using Cons False esc by simp
    qed
  qed
qed

lemma split_query_single:
  "\<forall>x \<in> set s. x \<noteq> CHR ''&'' \<and> x \<noteq> CHR '';'' \<Longrightarrow> split_query acc s = [acc @ s]"
  by (induction s arbitrary: acc) auto

lemma ParseQuery_single:
  "split_query [] q = [q] \<Longrightarrow> q \<noteq> [] \<Longrightarrow> parse_pair q = Some kv \<Longrightarrow> ParseQuery q = ([kv], False)"
  by (simp add: ParseQuery_def List.map_filter_simps)

lemma ParseQuery_onetimetoken:
  "ParseQuery (Values_Encode [(''onetimetoken'', [tok])]) = ([(''onetimetoken'', tok)], False)"
proof -
  let ?q = "''onetimetoken='' @ QueryEscape tok"
  have enc: "Values_Encode [(''onetimetoken'', [tok])] = ?q"
    by (simp add: Values_Encode_def shouldEscape_def)
  have "\<forall>x \<in> set ?q. x \<noteq> CHR ''&'' \<and> x \<noteq> CHR '';''"
    using QueryEscape_no_separator[of _ tok] by auto
  then have sp: "split_query [] ?q = [?q]"
    using split_query_single[of ?q "[]"] by simp
  have pp: "parse_pair ?q = Some (''onetimetoken'', tok)"
    by (simp add: parse_pair_def QueryUnescape_QueryEscape)
  have ne: "?q \<noteq> []"
    by simp
  show ?thesis
    unfolding enc by (rule ParseQuery_single[OF sp ne pp])
qed

section \<open>The HTML extractor\<close>












section \<open>The request and the result of the assertion exchange\<close>

lemma AwsSamlLogin_trace:
  assumes "url_Parse L oktaHref = Inr oktaUrl"
    and "url_Parse L samlHref = Inr samlEndpoint"
    and "cookiejar_New L = None"
  shows "snd (AwsSamlLogin L W oktaHref samlHref oktaAuthResponse tr) =
         tr @ [Get (URL_String L ((ResolveReference L oktaUrl samlEndpoint)
                 \<lparr>RawQuery := Values_Encode
                    [(''onetimetoken'', [SessionToken oktaAuthResponse])]\<rparr>))]"
  using assms
  by (simp add: AwsSamlLogin_def Let_def
      split: http_result.split body_read.split prod.split option.split sum.split)

lemma Values_Encode_onetimetoken:
  "Values_Encode [(''onetimetoken'', [tok])] = ''onetimetoken='' @ QueryEscape tok"
  by (simp add: Values_Encode_def shouldEscape_def)

text \<open>
  C8. When both addresses parse and the cookie jar is made, \<^verbatim>\<open>AwsSamlLogin\<close> makes one
  request: the GET of the SAML address resolved against the base address, its query replaced
  by \<^verbatim>\<open>onetimetoken=\<close> followed by the escaped session token. Read back as
  \<^verbatim>\<open>url.ParseQuery\<close> reads a query, it holds exactly one parameter, \<^verbatim>\<open>onetimetoken\<close>,
  whose value is the session token.
\<close>

theorem AwsSamlLogin_request_url:
  assumes "url_Parse L oktaHref = Inr oktaUrl"
    and "url_Parse L samlHref = Inr samlEndpoint"
    and "cookiejar_New L = None"
  shows "snd (AwsSamlLogin L W oktaHref samlHref oktaAuthResponse tr) =
           tr @ [Get (URL_String L ((ResolveReference L oktaUrl samlEndpoint)
                   \<lparr>RawQuery := ''onetimetoken=''
                                  @ QueryEscape (SessionToken oktaAuthResponse)\<rparr>))]
       \<and> ParseQuery (''onetimetoken='' @ QueryEscape (SessionToken oktaAuthResponse)) =
           ([(''onetimetoken'', SessionToken oktaAuthResponse)], False)"
  using AwsSamlLogin_trace[OF assms, of W oktaAuthResponse tr]
    ParseQuery_onetimetoken[of "SessionToken oktaAuthResponse"]
  by (simp only: Values_Encode_onetimetoken simp_thms)

lemma sample_saml_urls:
  "url_Parse sample_lib ''/app/saml'' =
   Inr \<lparr>Scheme = [], Opaque = [], User = None, Host = [], Path = ''/app/saml'',
        RawPath = [], ForceQuery = False, RawQuery = [], Fragment = []\<rparr>"
  "cookiejar_New sample_lib = None"
  by (simp_all add: sample_lib_def sample_urls_def)

lemma sample_saml_url:
  "URL_String sample_lib ((ResolveReference sample_lib
     \<lparr>Scheme = ''https'', Opaque = [], User = None, Host = ''example.okta.com'', Path = [],
      RawPath = [], ForceQuery = False, RawQuery = [], Fragment = []\<rparr>
     \<lparr>Scheme = [], Opaque = [], User = None, Host = [], Path = ''/app/saml'',
      RawPath = [], ForceQuery = False, RawQuery = [], Fragment = []\<rparr>)
       \<lparr>RawQuery := ''onetimetoken='' @ q\<rparr>)
   = ''https://example.okta.com/app/saml?onetimetoken='' @ q"
  by (simp add: sample_lib_def)

lemma char_of_26: "char_of (50::nat) = CHR ''2''" "char_of (54::nat) = CHR ''6''"
  by (simp_all add: char_of_eq_iff)

lemma QueryEscape_sample: "QueryEscape ''a b&c'' = ''a+b%26c''"
  by (simp add: shouldEscape_def upperhex_def char_of_26)

lemma sample_token: "SessionToken ((OktaAuthResponse_lit c)\<lparr>SessionToken := t\<rparr>) = t"
  by simp

theorem AwsSamlLogin_request_url_witness:
  "snd (AwsSamlLogin sample_lib (scripted [] (ok200 payload_page)) ''https://example.okta.com''
          ''/app/saml'' ((OktaAuthResponse_lit YAK_STATUS_OK)\<lparr>SessionToken := ''a b&c''\<rparr>) [])
     = [Get ''https://example.okta.com/app/saml?onetimetoken=a+b%26c'']
   \<and> ParseQuery ''onetimetoken=a+b%26c'' = ([(''onetimetoken'', ''a b&c'')], False)"
  using AwsSamlLogin_request_url[OF sample_url_Parse sample_saml_urls,
      of "scripted [] (ok200 payload_page)"
         "(OktaAuthResponse_lit YAK_STATUS_OK)\<lparr>SessionToken := ''a b&c''\<rparr>" "[]"]
  unfolding sample_token QueryEscape_sample sample_saml_url
  by simp



end
